theory Spec2Isabelle
  imports Main "HOL-Library.Char_ord" "HOL-Library.Sublist"
begin

section \<open>Strings\<close>

text \<open>
  A JavaScript string is a sequence of code units; it is modelled as a \<open>string\<close>
  (a list of \<open>char\<close>), one \<open>char\<close> per code unit, so \<open>length\<close> is the source's
  \<open>.length\<close>, \<open>take n\<close> is \<open>substring(0, n)\<close> and \<open>@\<close> is \<open>+\<close>. A \<open>char\<close> has eight bits:
  the model covers strings whose code units are below 256. Session names that pass
  validation are ASCII.
\<close>

text \<open>\<open>s.includes(sub)\<close>: some suffix of \<open>s\<close> starts with \<open>sub\<close>.\<close>

fun str_includes :: "string \<Rightarrow> string \<Rightarrow> bool" where
  "str_includes [] sub = (sub = [])"
| "str_includes (c # cs) sub = (prefix sub (c # cs) \<or> str_includes cs sub)"

text \<open>\<open>s.replace(sub, '')\<close> with a string pattern: only the first occurrence is removed.\<close>

fun remove_first :: "string \<Rightarrow> string \<Rightarrow> string" where
  "remove_first sub [] = []"
| "remove_first sub (c # cs) =
     (if prefix sub (c # cs) then drop (length sub) (c # cs) else c # remove_first sub cs)"

text \<open>Template literals print a number in decimal.\<close>

function show_nat :: "nat \<Rightarrow> string" where
  "show_nat n =
     (if n < 10 then [char_of (48 + n)] else show_nat (n div 10) @ [char_of (48 + n mod 10)])"
  by pat_completeness auto
termination
  by (relation "measure (\<lambda>n. n)") auto

declare show_nat.simps [simp del]

section \<open>Name codec\<close>

text \<open>
  \<open>SESSION_NAME_PATTERN\<close>, default value: \<^verbatim>\<open>^[a-zA-Z0-9_-]+(:[a-zA-Z0-9_-]+){2,}$\<close>.
  \<open>seg_char\<close> is the character class, \<open>groups n\<close> matches the repeated group
  \<^verbatim>\<open>(:[a-zA-Z0-9_-]+)\<close> up to the end of the input, \<open>n\<close> counting the groups already
  matched (the class excludes the colon, so the greedy match never backtracks).
\<close>

definition seg_char :: "char \<Rightarrow> bool" where
  "seg_char c =
     ((CHR ''a'' \<le> c \<and> c \<le> CHR ''z'') \<or> (CHR ''A'' \<le> c \<and> c \<le> CHR ''Z'') \<or>
      (CHR ''0'' \<le> c \<and> c \<le> CHR ''9'') \<or> c = CHR ''_'' \<or> c = CHR ''-'')"

function groups :: "nat \<Rightarrow> string \<Rightarrow> bool" where
  "groups n [] = (2 \<le> n)"
| "groups n (c # cs) =
     (c = CHR '':'' \<and> takeWhile seg_char cs \<noteq> [] \<and> groups (Suc n) (dropWhile seg_char cs))"
  by pat_completeness auto
termination
  by (relation "measure (\<lambda>(n, s). length s)") (auto simp: length_dropWhile_le less_Suc_eq_le)

definition pattern_test :: "string \<Rightarrow> bool" where
  "pattern_test name = (takeWhile seg_char name \<noteq> [] \<and> groups 0 (dropWhile seg_char name))"

text \<open>Errors thrown inside the tools, named after what raises them.\<close>

datatype js_error =
    InvalidSessionNameFormat  \<comment> \<open>\<open>validateSessionName\<close>: "Invalid session name format. ..."\<close>
  | ENOENT                    \<comment> \<open>a file operation on a file that does not exist\<close>
  | ENAMETOOLONG              \<comment> \<open>a file operation on a file name longer than the limit\<close>

definition validateSessionName :: "string \<Rightarrow> js_error + string" where
  "validateSessionName sessionName =
     (if pattern_test sessionName then Inr sessionName else Inl InvalidSessionNameFormat)"

text \<open>\<open>replace(/_+/g, '_')\<close>: every maximal run of underscores becomes one underscore.\<close>

function collapse_underscores :: "string \<Rightarrow> string" where
  "collapse_underscores [] = []"
| "collapse_underscores (c # cs) =
     (if c = CHR ''_'' then CHR ''_'' # collapse_underscores (dropWhile (\<lambda>d. d = CHR ''_'') cs)
      else c # collapse_underscores cs)"
  by pat_completeness auto
termination
  by (relation "measure length") (auto simp: length_dropWhile_le less_Suc_eq_le)

text \<open>\<open>replace(/:/g, '___')\<close>.\<close>

definition replace_colons :: "string \<Rightarrow> string" where
  "replace_colons s = concat (map (\<lambda>c. if c = CHR '':'' then ''___'' else [c]) s)"

text \<open>The class \<^verbatim>\<open>[<>:"/\\|?*\x00-\x1f]\<close>; \<open>0x22\<close> is the double quote, \<open>0x5C\<close> the backslash.\<close>

definition unsafe_char :: "char \<Rightarrow> bool" where
  "unsafe_char c =
     (c \<in> set [CHR ''<'', CHR ''>'', CHR '':'', CHR 0x22, CHR ''/'', CHR 0x5C, CHR ''|'',
                CHR ''?'', CHR ''*''] \<or> c \<le> CHR 0x1F)"

definition replace_unsafe :: "string \<Rightarrow> string" where
  "replace_unsafe s = map (\<lambda>c. if unsafe_char c then CHR ''_'' else c) s"

definition sanitizeSessionName :: "string \<Rightarrow> string" where
  "sanitizeSessionName sessionName =
     replace_unsafe (replace_colons (collapse_underscores sessionName))"

text \<open>\<open>replace(/___/g, ':')\<close>: scanning from the left, matches do not overlap.\<close>

fun replace_triple :: "string \<Rightarrow> string" where
  "replace_triple (a # b # c # cs) =
     (if a = CHR ''_'' \<and> b = CHR ''_'' \<and> c = CHR ''_'' then CHR '':'' # replace_triple cs
      else a # replace_triple (b # c # cs))"
| "replace_triple cs = cs"

definition desanitizeFilename :: "string \<Rightarrow> string" where
  "desanitizeFilename filename = replace_triple (remove_first ''.json'' filename)"

text \<open>The file of a session, as \<open>loadSession\<close>, \<open>saveSession\<close> and the tools build it.\<close>

definition session_file :: "string \<Rightarrow> string" where
  "session_file sessionName = sanitizeSessionName sessionName @ ''.json''"

text \<open>
  Names in which every underscore stands alone and none comes directly before a colon:
  the names that the collapse of underscore runs leaves as they are and whose
  underscores cannot join the separator that follows them.
\<close>

definition plain_underscores :: "string \<Rightarrow> bool" where
  "plain_underscores name = (\<not> str_includes name ''__'' \<and> \<not> str_includes name ''_:'')"

text \<open>The shape of a name with plain underscores, by recursion on the name.\<close>

fun lone_underscores :: "string \<Rightarrow> bool" where
  "lone_underscores (a # b # cs) =
     (\<not> (a = CHR ''_'' \<and> (b = CHR ''_'' \<or> b = CHR '':'')) \<and> lone_underscores (b # cs))"
| "lone_underscores cs = True"

section \<open>Data model\<close>

text \<open>
  A thought as \<open>think\<close> builds it and the session files hold it. \<open>id_t\<close> is the field
  \<open>id\<close>. \<open>timestamp\<close> is the instant in milliseconds that the stored ISO string
  denotes (the code compares timestamps as \<open>Date\<close> values). \<open>relates_to\<close> and
  \<open>relationship_type\<close> are \<open>null\<close> (\<open>None\<close>) or a string. An entry of
  \<open>relationships_in\<close> or \<open>relationships_out\<close> is a \<open>rel\<close>, its field
  \<open>relationship_type\<close> written \<open>rel_type\<close>.
\<close>

record rel =
  thought_id :: string
  rel_type :: string

record thought =
  id_t :: string
  content :: string
  mode :: string
  tags :: "string list"
  timestamp :: nat
  relates_to :: "string option"
  relationship_type :: "string option"
  relationships_in :: "rel list"
  relationships_out :: "rel list"

section \<open>Reasoning chain\<close>

text \<open>
  An entry of a reasoning chain. \<open>truncated_flag\<close> is the field \<open>truncated\<close>, set only on
  the first entry of a chain that was cut (\<open>False\<close> stands for the absent field), and
  \<open>ce_note\<close> is the field \<open>note\<close> that comes with it.
\<close>

record chain_entry =
  ce_id :: string
  content_preview :: string
  ce_mode :: string
  ce_timestamp :: nat
  ce_relationship_type :: "string option"
  truncated_flag :: bool
  ce_note :: "string option"

text \<open>\<open>content.substring(0, n) + (content.length > n ? "..." : "")\<close>.\<close>

definition preview :: "nat \<Rightarrow> string \<Rightarrow> string" where
  "preview n s = take n s @ (if n < length s then ''...'' else [])"

definition chain_entry_of :: "thought \<Rightarrow> chain_entry" where
  "chain_entry_of thought =
     \<lparr>ce_id = id_t thought, content_preview = preview 120 (content thought),
      ce_mode = mode thought, ce_timestamp = timestamp thought,
      ce_relationship_type = relationship_type thought, truncated_flag = False, ce_note = None\<rparr>"

text \<open>
  The \<open>while\<close> loop of \<open>buildReasoningChain\<close>, its state being \<open>currentId\<close>, \<open>visited\<close> and
  \<open>chain\<close>; \<open>chain.unshift(entry)\<close> puts the entry in front. A string is truthy when it is
  not empty. The loop ends because every round that goes on makes the chain longer, and
  the chain stays shorter than 20.
\<close>

function chain_loop ::
  "thought list \<Rightarrow> string \<Rightarrow> string set \<Rightarrow> chain_entry list \<Rightarrow> chain_entry list" where
  "chain_loop thoughts currentId visited chain =
     (if currentId \<noteq> [] \<and> currentId \<notin> visited \<and> length chain < 20 then
        (case find (\<lambda>t. id_t t = currentId) thoughts of
           None \<Rightarrow> chain
         | Some thought \<Rightarrow>
             (case relates_to thought of
                None \<Rightarrow> chain_entry_of thought # chain
              | Some r \<Rightarrow>
                  if relationship_type thought = Some ''builds_on'' \<and> r \<noteq> []
                  then chain_loop thoughts r (insert currentId visited)
                         (chain_entry_of thought # chain)
                  else chain_entry_of thought # chain))
      else chain)"
  by pat_completeness auto
termination
  by (relation "measure (\<lambda>(thoughts, currentId, visited, chain). 20 - length chain)") auto

declare chain_loop.simps [simp del]

record chain_result =
  chain :: "chain_entry list"
  total_length :: nat
  truncated :: bool

definition buildReasoningChain :: "string \<Rightarrow> thought list \<Rightarrow> chain_result" where
  "buildReasoningChain thoughtId thoughts =
     (let chain = chain_loop thoughts thoughtId {} [];
          maxChainLength = 7
      in if maxChainLength < length chain then
           let truncatedChain = drop (length chain - maxChainLength) chain;
               truncatedChain = truncatedChain
                 [0 := (truncatedChain ! 0)
                    \<lparr>truncated_flag := True,
                     ce_note := Some (''... ('' @ show_nat (length chain - maxChainLength) @
                                   '' earlier thoughts in chain)'')\<rparr>]
           in \<lparr>chain = truncatedChain, total_length = length chain, truncated = True\<rparr>
         else \<lparr>chain = chain, total_length = length chain, truncated = False\<rparr>)"



section \<open>Session store\<close>

text \<open>
  \<open>SESSION_DIR\<close> is a map from file names to files. A file either holds the JSON text of
  a thought list (\<open>JSON.parse\<close> gives the list back) or cannot be read as one: it is
  unreadable, or its text does not parse. (A file whose text parses to something that is
  not a list of thoughts is not modelled.)

  The file operations fail as the file system makes them fail: every operation on a
  file name longer than \<open>NAME_MAX\<close> (255 on the usual file systems) fails with
  \<open>ENAMETOOLONG\<close>, and reading, \<open>fs.stat\<close> and \<open>fs.unlink\<close> fail with \<open>ENOENT\<close> on a file
  that is not there. Failures of the medium itself (a full disk, missing permissions) are
  not modelled.
\<close>

datatype file_content = Json "thought list" | Unreadable

type_synonym store = "string \<rightharpoonup> file_content"

definition NAME_MAX :: nat where
  "NAME_MAX = 255"

definition readFile :: "store \<Rightarrow> string \<Rightarrow> js_error + file_content" where
  "readFile st path =
     (if NAME_MAX < length path then Inl ENAMETOOLONG
      else case st path of None \<Rightarrow> Inl ENOENT | Some f \<Rightarrow> Inr f)"

definition writeFile :: "store \<Rightarrow> string \<Rightarrow> file_content \<Rightarrow> js_error + store" where
  "writeFile st path f =
     (if NAME_MAX < length path then Inl ENAMETOOLONG else Inr (st(path \<mapsto> f)))"

definition unlink :: "store \<Rightarrow> string \<Rightarrow> js_error + store" where
  "unlink st path =
     (if NAME_MAX < length path then Inl ENAMETOOLONG
      else case st path of None \<Rightarrow> Inl ENOENT | Some f \<Rightarrow> Inr (st(path := None)))"

text \<open>\<open>fs.stat\<close>, as far as the tools use it: whether it returns or throws.\<close>

definition stat :: "store \<Rightarrow> string \<Rightarrow> js_error + unit" where
  "stat st path =
     (if NAME_MAX < length path then Inl ENAMETOOLONG
      else case st path of None \<Rightarrow> Inl ENOENT | Some f \<Rightarrow> Inr ())"

text \<open>Whatever goes wrong in the \<open>try\<close> block, the \<open>catch\<close> returns the empty array.\<close>

definition loadSession :: "store \<Rightarrow> string \<Rightarrow> thought list" where
  "loadSession st sessionName =
     (case readFile st (session_file sessionName) of
        Inl err \<Rightarrow> []
      | Inr Unreadable \<Rightarrow> []
      | Inr (Json thoughts) \<Rightarrow> thoughts)"

text \<open>The \<open>catch\<close> of \<open>saveSession\<close> logs the error and throws it again.\<close>

definition saveSession :: "store \<Rightarrow> string \<Rightarrow> thought list \<Rightarrow> js_error + store" where
  "saveSession st sessionName thoughts = writeFile st (session_file sessionName) (Json thoughts)"

text \<open>
  The error payloads of the tools. A tool never throws: its \<open>catch\<close> turns an exception
  into a payload, \<open>think\<close> as \<open>{error: message}\<close>, the other tools as
  \<open>{error: "Failed to ...", message}\<close>.
\<close>

datatype failure =
    CannotReferenceSelf               \<comment> \<open>\<open>{error: "Cannot reference self"}\<close>\<close>
  | ReferencedThoughtNotFound string  \<comment> \<open>\<open>{error: "Referenced thought not found", thought_id}\<close>\<close>
  | CannotReferenceFuture             \<comment> \<open>\<open>{error: "Cannot reference future thoughts"}\<close>\<close>
  | Thrown js_error                   \<comment> \<open>\<open>{error: error.message}\<close>\<close>
  | SessionNotFound string            \<comment> \<open>\<open>{error: "Session not found", message}\<close>\<close>
  | SessionNotFoundOrEmpty string     \<comment> \<open>\<open>{error: "Session not found or empty", sessionName}\<close>\<close>
  | FailedTo string js_error          \<comment> \<open>\<open>{error: "Failed to ...", message: error.message}\<close>\<close>

section \<open>Tool: think\<close>

text \<open>
  The arguments of the tool (an optional argument is \<open>None\<close> when left out), and what the
  call reads from the clock and the random source: \<open>Date.now()\<close> and \<open>Math.random()\<close>
  for a generated session name, again for the thought id, and \<open>new Date()\<close> for the
  timestamp of the thought. The field \<open>timestamp\<close> of a response, the time at which the
  payload is built, is left out of every response below.
\<close>

record think_args =
  arg_reasoning :: string
  arg_sessionName :: "string option"
  arg_mode :: "string option"
  arg_tags :: "string list option"
  arg_relates_to :: "string option"
  arg_relationship_type :: "string option"

record env =
  session_now :: nat
  session_random :: string
  id_now :: nat
  id_random :: string
  stamp :: nat

text \<open>Truthiness of an optional string: neither \<open>undefined\<close>/\<open>null\<close> nor empty.\<close>

definition truthy :: "string option \<Rightarrow> bool" where
  "truthy v = (case v of None \<Rightarrow> False | Some s \<Rightarrow> s \<noteq> [])"

definition generateRandomSessionName :: "env \<Rightarrow> string" where
  "generateRandomSessionName e = ''TEMP:'' @ show_nat (session_now e) @ '':'' @ session_random e"

definition generated_id :: "env \<Rightarrow> string" where
  "generated_id e = ''thought_'' @ show_nat (id_now e) @ ''_'' @ id_random e"

text \<open>The session of a call: the validated argument, or a generated name (not validated).\<close>

definition session_of :: "think_args \<Rightarrow> env \<Rightarrow> js_error + string" where
  "session_of a e =
     (case arg_sessionName a of
        None \<Rightarrow> Inr (generateRandomSessionName e)
      | Some s \<Rightarrow> if s = [] then Inr (generateRandomSessionName e) else validateSessionName s)"

definition new_thought :: "think_args \<Rightarrow> env \<Rightarrow> thought" where
  "new_thought a e =
     \<lparr>id_t = generated_id e,
      content = arg_reasoning a,
      mode = (if truthy (arg_mode a) then the (arg_mode a) else ''linear''),
      tags = (case arg_tags a of None \<Rightarrow> [] | Some ts \<Rightarrow> ts),
      timestamp = stamp e,
      relates_to = None,
      relationship_type = None,
      relationships_in = [],
      relationships_out = []\<rparr>"

text \<open>
  \<open>referencedThought.relationships_in.push(entry)\<close>, where \<open>referencedThought\<close> is what
  \<open>thoughts.find\<close> returned: the first thought with that id is changed in place.
\<close>

fun push_relationship_in :: "string \<Rightarrow> rel \<Rightarrow> thought list \<Rightarrow> thought list" where
  "push_relationship_in r entry [] = []"
| "push_relationship_in r entry (t # ts) =
     (if id_t t = r then t\<lparr>relationships_in := relationships_in t @ [entry]\<rparr> # ts
      else t # push_relationship_in r entry ts)"

text \<open>
  Link validation and \<open>thoughts.push(thoughtObj)\<close>: the thought list to save, or the error
  payload that is returned before anything is saved.
\<close>

definition append_thought ::
  "thought list \<Rightarrow> thought \<Rightarrow> string option \<Rightarrow> string option \<Rightarrow> failure + thought list" where
  "append_thought thoughts thoughtObj relates_to_arg relationship_type_arg =
     (case (relates_to_arg, relationship_type_arg) of
        (Some r, Some ty) \<Rightarrow>
          if r \<noteq> [] \<and> ty \<noteq> [] then
            if r = id_t thoughtObj then Inl CannotReferenceSelf
            else
              (case find (\<lambda>t. id_t t = r) thoughts of
                 None \<Rightarrow> Inl (ReferencedThoughtNotFound r)
               | Some referencedThought \<Rightarrow>
                   if timestamp thoughtObj < timestamp referencedThought
                   then Inl CannotReferenceFuture
                   else Inr (push_relationship_in r
                               \<lparr>thought_id = id_t thoughtObj, rel_type = ty\<rparr> thoughts
                             @ [thoughtObj
                                 \<lparr>relates_to := Some r,
                                  relationship_type := Some ty,
                                  relationships_out := relationships_out thoughtObj
                                    @ [\<lparr>thought_id = r, rel_type = ty\<rparr>]\<rparr>]))
          else Inr (thoughts @ [thoughtObj])
      | _ \<Rightarrow> Inr (thoughts @ [thoughtObj]))"

datatype related_context =
    Related string string string string
      \<comment> \<open>\<open>relationship\<close>, \<open>related_thought_id\<close>, \<open>related_content\<close>, \<open>related_mode\<close>\<close>
  | BuildsOnEnhanced "string list" "string list" "string list"
      \<comment> \<open>\<open>chain_preview\<close>, \<open>conflicts\<close>, \<open>supports\<close>\<close>

definition linked_with :: "string \<Rightarrow> string \<Rightarrow> thought list \<Rightarrow> thought list" where
  "linked_with ty r thoughts =
     take 3 (filter (\<lambda>t. list_ex (\<lambda>rel. thought_id rel = r \<and> rel_type rel = ty)
                            (relationships_out t)) thoughts)"

definition context_of ::
  "thought list \<Rightarrow> string option \<Rightarrow> string option
     \<Rightarrow> related_context option \<times> chain_result option" where
  "context_of thoughts relates_to_arg relationship_type_arg =
     (case (relates_to_arg, relationship_type_arg) of
        (Some r, Some ty) \<Rightarrow>
          if r \<noteq> [] \<and> ty \<noteq> [] then
            (case find (\<lambda>t. id_t t = r) thoughts of
               None \<Rightarrow> (None, None)
             | Some related_thought \<Rightarrow>
                 if ty = ''builds_on'' then
                   let c = buildReasoningChain r thoughts
                   in (Some (BuildsOnEnhanced
                         (map content_preview (take 5 (chain c)))
                         (map (\<lambda>t. take 80 (content t) @ ''...'')
                            (linked_with ''contradicts'' r thoughts))
                         (map (\<lambda>t. take 80 (content t) @ ''...'')
                            (linked_with ''supports'' r thoughts))),
                       Some c)
                 else (Some (Related ty r (take 200 (content related_thought) @ ''...'')
                               (mode related_thought)), None))
          else (None, None)
      | _ \<Rightarrow> (None, None))"

record think_response =
  thinking :: string
  thoughtId :: string
  r_sessionName :: string
  r_mode :: string
  r_tags :: "string list"
  thoughtCount :: nat
  preserved :: bool
  r_related_context :: "related_context option"
  reasoning_chain :: "chain_result option"
  isNewSession :: bool

definition think :: "store \<Rightarrow> think_args \<Rightarrow> env \<Rightarrow> (failure + think_response) \<times> store" where
  "think st a e =
     (case session_of a e of
        Inl err \<Rightarrow> (Inl (Thrown err), st)
      | Inr session \<Rightarrow>
          let thoughts = loadSession st session;
              thoughtObj = new_thought a e
          in (case append_thought thoughts thoughtObj (arg_relates_to a) (arg_relationship_type a) of
                Inl payload \<Rightarrow> (Inl payload, st)
              | Inr saved \<Rightarrow>
                  (case saveSession st session saved of
                     Inl err \<Rightarrow> (Inl (Thrown err), st)
                   | Inr st' \<Rightarrow>
                       (Inr \<lparr>thinking = arg_reasoning a,
                             thoughtId = id_t thoughtObj,
                             r_sessionName = session,
                             r_mode = mode thoughtObj,
                             r_tags = tags thoughtObj,
                             thoughtCount = length saved,
                             preserved = True,
                             r_related_context =
                               fst (context_of saved (arg_relates_to a) (arg_relationship_type a)),
                             reasoning_chain =
                               snd (context_of saved (arg_relates_to a) (arg_relationship_type a)),
                             isNewSession = (\<not> truthy (arg_sessionName a) \<or> thoughts = [])\<rparr>,
                        st'))))"

section \<open>Tools: delete, rename, view, info\<close>

definition delete_session :: "store \<Rightarrow> string \<Rightarrow> (failure + string) \<times> store" where
  "delete_session st sessionName =
     (case validateSessionName sessionName of
        Inl err \<Rightarrow> (Inl (FailedTo ''Failed to delete session'' err), st)
      | Inr name \<Rightarrow>
          (case unlink st (session_file sessionName) of
             Inl err \<Rightarrow> (Inl (FailedTo ''Failed to delete session'' err), st)
           | Inr st' \<Rightarrow> (Inr ''success'', st')))"

record rename_response =
  oldName :: string
  newName :: string
  renamed_thoughtCount :: nat

definition rename_session ::
  "store \<Rightarrow> string \<Rightarrow> string \<Rightarrow> (failure + rename_response) \<times> store" where
  "rename_session st oldSessionName newSessionName =
     (case validateSessionName oldSessionName of
        Inl err \<Rightarrow> (Inl (FailedTo ''Failed to rename session'' err), st)
      | Inr old \<Rightarrow>
     (case validateSessionName newSessionName of
        Inl err \<Rightarrow> (Inl (FailedTo ''Failed to rename session'' err), st)
      | Inr new \<Rightarrow>
          let thoughts = loadSession st oldSessionName
          in if thoughts = [] then (Inl (SessionNotFound oldSessionName), st)
             else
               (case saveSession st newSessionName thoughts of
                  Inl err \<Rightarrow> (Inl (FailedTo ''Failed to rename session'' err), st)
                | Inr st1 \<Rightarrow>
                    (case unlink st1 (session_file oldSessionName) of
                       Inl err \<Rightarrow> (Inl (FailedTo ''Failed to rename session'' err), st1)
                     | Inr st2 \<Rightarrow>
                         (Inr \<lparr>oldName = oldSessionName, newName = newSessionName,
                               renamed_thoughtCount = length thoughts\<rparr>, st2)))))"

text \<open>\<open>SESSION_MAX_RETURN\<close>, default value.\<close>

definition SESSION_MAX_RETURN :: nat where
  "SESSION_MAX_RETURN = 50"

record view_response =
  view_sessionName :: string
  view_thoughts :: "thought list"
  view_count :: nat
  totalThoughts :: nat
  view_limit :: nat
  view_offset :: nat
  hasMore :: bool

definition view_session :: "store \<Rightarrow> string \<Rightarrow> nat option \<Rightarrow> nat \<Rightarrow> failure + view_response" where
  "view_session st sessionName limit offset =
     (case validateSessionName sessionName of
        Inl err \<Rightarrow> Inl (FailedTo ''Failed to view session'' err)
      | Inr name \<Rightarrow>
          let thoughts = loadSession st sessionName;
              maxReturn = (case limit of None \<Rightarrow> SESSION_MAX_RETURN
                           | Some l \<Rightarrow> if l = 0 then SESSION_MAX_RETURN else l);
              paginatedThoughts = take maxReturn (drop offset thoughts)
          in Inr \<lparr>view_sessionName = sessionName, view_thoughts = paginatedThoughts,
                  view_count = length paginatedThoughts, totalThoughts = length thoughts,
                  view_limit = maxReturn, view_offset = offset,
                  hasMore = (offset + maxReturn < length thoughts)\<rparr>)"

text \<open>\<open>[...new Set(xs)]\<close>: the first occurrence of each element, in order.\<close>

definition unique :: "'a list \<Rightarrow> 'a list" where
  "unique xs = rev (remdups (rev xs))"

text \<open>
  \<open>get_session_info\<close>; \<open>stats\<close> is \<open>null\<close> exactly when \<open>fs.stat\<close> throws. The fields
  \<open>created\<close> and \<open>lastModified\<close>, read from \<open>stats\<close>, are left out: the store keeps no
  file times.
\<close>

record info_response =
  info_sessionName :: string
  info_exists :: bool
  info_thoughtCount :: nat
  firstThought :: "nat option"
  lastThought :: "nat option"
  info_modes :: "string list"
  info_tags :: "string list"

definition get_session_info :: "store \<Rightarrow> string \<Rightarrow> failure + info_response" where
  "get_session_info st sessionName =
     (case validateSessionName sessionName of
        Inl err \<Rightarrow> Inl (FailedTo ''Failed to get session info'' err)
      | Inr name \<Rightarrow>
          let thoughts = loadSession st sessionName;
              stats = (case stat st (session_file sessionName) of
                         Inl err \<Rightarrow> None | Inr found \<Rightarrow> Some found)
          in Inr \<lparr>info_sessionName = sessionName,
                  info_exists = (0 < length thoughts \<or> stats \<noteq> None),
                  info_thoughtCount = length thoughts,
                  firstThought = (case thoughts of [] \<Rightarrow> None | t # ts \<Rightarrow> Some (timestamp t)),
                  lastThought = (if thoughts = [] then None else Some (timestamp (last thoughts))),
                  info_modes = unique (map mode thoughts),
                  info_tags = unique (concat (map tags thoughts))\<rparr>)"

section \<open>Tool: search in session\<close>

text \<open>
  \<open>toLowerCase\<close> on code units below 256: the letters \<open>A\<close> to \<open>Z\<close> and the Latin-1
  capitals \<open>0xC0\<close> to \<open>0xDE\<close> (\<open>0xD7\<close>, the multiplication sign, is no letter) move up
  by 32; every other code unit stays.
\<close>

definition lower_char :: "char \<Rightarrow> char" where
  "lower_char c =
     (if (CHR ''A'' \<le> c \<and> c \<le> CHR ''Z'') \<or>
         (CHR 0xC0 \<le> c \<and> c \<le> CHR 0xDE \<and> c \<noteq> CHR 0xD7)
      then char_of (of_char c + (32 :: nat)) else c)"

definition toLowerCase :: "string \<Rightarrow> string" where
  "toLowerCase s = map lower_char s"

text \<open>
  The class \<^verbatim>\<open>\s\<close> on code units below 256 (tab to carriage return, space, and the
  no-break space \<open>0xA0\<close>), and \<open>split(/\s+/)\<close>.
\<close>

definition is_space :: "char \<Rightarrow> bool" where
  "is_space c = ((CHR 0x09 \<le> c \<and> c \<le> CHR 0x0D) \<or> c = CHR 0x20 \<or> c = CHR 0xA0)"

function split_spaces :: "string \<Rightarrow> string list" where
  "split_spaces s =
     (let word = takeWhile (\<lambda>c. \<not> is_space c) s;
          rest = dropWhile (\<lambda>c. \<not> is_space c) s
      in if rest = [] then [word] else word # split_spaces (dropWhile is_space rest))"
  by pat_completeness auto
termination
proof (relation "measure length")
  show "wf (measure length)" by simp
next
  fix s :: string and word rest
  assume rest: "rest = dropWhile (\<lambda>c. \<not> is_space c) s" and ne: "rest \<noteq> []"
  from ne obtain c cs where cs: "rest = c # cs" by (cases rest) auto
  have "\<not> \<not> is_space (hd rest)"
    using hd_dropWhile [of "\<lambda>c. \<not> is_space c" s] rest ne by simp
  with cs have "is_space c" by simp
  with cs have "length (dropWhile is_space rest) \<le> length cs"
    by (simp add: length_dropWhile_le)
  moreover from rest have "length rest \<le> length s" by (simp add: length_dropWhile_le)
  ultimately show "(dropWhile is_space rest, s) \<in> measure length" using cs by simp
qed

declare split_spaces.simps [simp del]

definition content_match :: "string \<Rightarrow> thought \<Rightarrow> bool" where
  "content_match queryLower t = str_includes (toLowerCase (content t)) queryLower"

definition tag_match :: "string \<Rightarrow> thought \<Rightarrow> bool" where
  "tag_match queryLower t = list_ex (\<lambda>tag. str_includes (toLowerCase tag) queryLower) (tags t)"

definition mode_match :: "string \<Rightarrow> thought \<Rightarrow> bool" where
  "mode_match queryLower t = (mode t \<noteq> [] \<and> str_includes (toLowerCase (mode t)) queryLower)"

definition matches_query :: "string \<Rightarrow> thought \<Rightarrow> bool" where
  "matches_query queryLower t =
     (content_match queryLower t \<or> tag_match queryLower t \<or> mode_match queryLower t)"

definition calculateRelevanceScore :: "thought \<Rightarrow> string \<Rightarrow> nat" where
  "calculateRelevanceScore t queryLower =
     (let c = toLowerCase (content t)
      in (if str_includes c queryLower then 10 else 0)
         + 2 * length (filter (\<lambda>word. str_includes c word) (split_spaces queryLower))
         + 5 * length (filter (\<lambda>tag. str_includes (toLowerCase tag) queryLower) (tags t))
         + (if mode t \<noteq> [] \<and> str_includes (toLowerCase (mode t)) queryLower then 3 else 0)
         + (if truthy (relates_to t) \<or> truthy (relationship_type t) then 1 else 0))"

record search_result =
  sr_id :: string
  sr_content_preview :: string
  sr_mode :: string
  sr_tags :: "string list"
  sr_timestamp :: nat
  sr_relates_to :: "string option"
  sr_relationship_type :: "string option"
  relevance_score :: nat

definition search_result_of :: "string \<Rightarrow> thought \<Rightarrow> search_result" where
  "search_result_of queryLower t =
     \<lparr>sr_id = id_t t, sr_content_preview = preview 150 (content t), sr_mode = mode t,
      sr_tags = tags t, sr_timestamp = timestamp t, sr_relates_to = relates_to t,
      sr_relationship_type = relationship_type t,
      relevance_score = calculateRelevanceScore t queryLower\<rparr>"

text \<open>
  \<open>sort((a, b) => b.relevance_score - a.relevance_score)\<close>: \<open>Array.prototype.sort\<close> is
  stable, so the outcome is that of any stable sort by descending score; \<open>sort_key\<close> is
  the stable insertion sort of the list library.
\<close>

definition sort_by_score :: "search_result list \<Rightarrow> search_result list" where
  "sort_by_score rs = sort_key (\<lambda>r. - int (relevance_score r)) rs"

text \<open>The matches of a query in append order, before sorting and paging.\<close>

definition matching_results :: "string \<Rightarrow> thought list \<Rightarrow> search_result list" where
  "matching_results queryLower thoughts =
     map (search_result_of queryLower) (filter (matches_query queryLower) thoughts)"

record search_response =
  search_sessionName :: string
  search_query :: string
  results :: "search_result list"
  result_count :: nat
  search_offset :: nat
  search_limit :: nat

text \<open>
  \<open>search_in_session\<close>. \<open>limit\<close> and \<open>offset\<close> are natural numbers: the integers that the
  input schema admits (\<open>limit\<close> from 1 to 50, \<open>offset\<close> from 0). The schema also admits
  numbers with a fraction, whose \<open>slice\<close> bounds are truncated; those inputs are not
  modelled. \<open>slice(offset, offset + limit)\<close> is \<open>take limit (drop offset xs)\<close>.
\<close>

definition search_in_session ::
  "store \<Rightarrow> string \<Rightarrow> string \<Rightarrow> nat \<Rightarrow> nat \<Rightarrow> failure + search_response" where
  "search_in_session st sessionName query limit offset =
     (case validateSessionName sessionName of
        Inl err \<Rightarrow> Inl (FailedTo ''Failed to search in session'' err)
      | Inr name \<Rightarrow>
          let thoughts = loadSession st sessionName
          in if thoughts = [] then Inl (SessionNotFoundOrEmpty sessionName)
             else
               let queryLower = toLowerCase query;
                   searchResults =
                     take limit (drop offset (sort_by_score (matching_results queryLower thoughts)))
               in Inr \<lparr>search_sessionName = sessionName, search_query = query,
                       results = searchResults, result_count = length searchResults,
                       search_offset = offset, search_limit = limit\<rparr>)"

section \<open>Example inputs\<close>


definition example_env :: env where
  "example_env = \<lparr>session_now = 1, session_random = ''r4nd0m'', id_now = 5,
                   id_random = ''abcde'', stamp = 7\<rparr>"

definition unlinked_args :: think_args where
  "unlinked_args =
     \<lparr>arg_reasoning = ''first'', arg_sessionName = Some ''a:b:c'', arg_mode = None,
      arg_tags = None, arg_relates_to = None, arg_relationship_type = None\<rparr>"

definition example_thought :: thought where
  "example_thought =
     \<lparr>id_t = ''thought_1_aaaaa'', content = ''Alpha beta'', mode = ''linear'', tags = [],
      timestamp = 1, relates_to = None, relationship_type = None, relationships_in = [],
      relationships_out = []\<rparr>"

definition example_session :: "thought list" where
  "example_session =
     [example_thought,
      example_thought\<lparr>id_t := ''thought_2_bbbbb'', content := ''Gamma'', timestamp := 2\<rparr>,
      example_thought\<lparr>id_t := ''thought_3_ccccc'', content := ''alpha ALPHA'', timestamp := 3,
                      tags := [''Alphabet'']\<rparr>,
      example_thought\<lparr>id_t := ''thought_4_ddddd'', content := ''beta alpha'', timestamp := 4\<rparr>]"

definition example_store :: store where
  "example_store = [''a___b___c.json'' \<mapsto> Json example_session]"

section \<open>Sessions reached by think\<close>

text \<open>
  The thought lists that a session can hold after successful calls of \<open>think\<close> on it,
  starting from an empty session. The id of a new thought comes from the clock and the
  random source; nothing makes it differ from the ids the session holds already.
\<close>

inductive reachable :: "thought list \<Rightarrow> bool" where
  start: "reachable []"
| step: "reachable (loadSession st session) \<Longrightarrow>
         session_of a e = Inr session \<Longrightarrow>
         think st a e = (Inr response, st') \<Longrightarrow>
         reachable (loadSession st' session)"

text \<open>What the invariant needs besides itself: ids are distinct, links point into the session.\<close>

definition links_closed :: "thought list \<Rightarrow> bool" where
  "links_closed thoughts =
     (distinct (map id_t thoughts) \<and>
      (\<forall>t \<in> set thoughts. \<forall>entry \<in> set (relationships_in t) \<union> set (relationships_out t).
         thought_id entry \<in> id_t ` set thoughts))"

definition links_consistent :: "thought list \<Rightarrow> bool" where
  "links_consistent thoughts =
     (\<forall>A \<in> set thoughts. \<forall>B \<in> set thoughts. \<forall>T.
        (\<lparr>thought_id = id_t A, rel_type = T\<rparr> \<in> set (relationships_in B)) =
        (\<lparr>thought_id = id_t B, rel_type = T\<rparr> \<in> set (relationships_out A)))"

definition linked_args :: think_args where
  "linked_args =
     unlinked_args\<lparr>arg_reasoning := ''second'', arg_relates_to := Some ''thought_5_abcde'',
                   arg_relationship_type := Some ''builds_on''\<rparr>"

definition later_env :: env where
  "later_env = example_env\<lparr>id_now := 6, stamp := 8\<rparr>"

definition two_step_store :: store where
  "two_step_store = snd (think (snd (think Map.empty unlinked_args example_env)) linked_args later_env)"

text \<open>
  Three calls on one session within one millisecond: the second draws another random
  suffix, the third draws the suffix of the first again and relates to the second
  thought.
\<close>

definition second_args :: think_args where
  "second_args = unlinked_args\<lparr>arg_reasoning := ''second''\<rparr>"

definition other_env :: env where
  "other_env = example_env\<lparr>id_random := ''fghij''\<rparr>"

definition repeated_args :: think_args where
  "repeated_args =
     unlinked_args\<lparr>arg_reasoning := ''third'', arg_relates_to := Some ''thought_5_fghij'',
                   arg_relationship_type := Some ''supports''\<rparr>"

definition repeated_id_store :: store where
  "repeated_id_store =
     snd (think (snd (think (snd (think Map.empty unlinked_args example_env))
                        second_args other_env))
            repeated_args example_env)"

text \<open>A valid session name of 264 characters; its file name has 273.\<close>

definition long_name :: string where
  "long_name = ''a:b:'' @ replicate 260 (CHR ''c'')"

section \<open>Properties of the name codec\<close>

lemma groups_chars: "groups n s \<Longrightarrow> c \<in> set s \<Longrightarrow> seg_char c \<or> c = CHR '':''"
proof (induction n s rule: groups.induct)
  case (1 n)
  then show ?case by simp
next
  case (2 n d ds)
  from "2.prems" have d: "d = CHR '':''" and g: "groups (Suc n) (dropWhile seg_char ds)"
    by simp_all
  from "2.prems"(2) consider "c = d" | "c \<in> set ds" by auto
  then show ?case
  proof cases
    case 1
    with d show ?thesis by simp
  next
    case 2
    then have "c \<in> set (takeWhile seg_char ds) \<or> c \<in> set (dropWhile seg_char ds)"
      by (metis Un_iff set_append takeWhile_dropWhile_id)
    then show ?thesis
      using "2.IH" g by (auto dest: set_takeWhileD)
  qed
qed

lemma pattern_test_chars:
  assumes "pattern_test name" and "c \<in> set name"
  shows "seg_char c \<or> c = CHR '':''"
proof -
  from assms(2) have "c \<in> set (takeWhile seg_char name) \<or> c \<in> set (dropWhile seg_char name)"
    by (metis Un_iff set_append takeWhile_dropWhile_id)
  then show ?thesis
    using assms(1) groups_chars by (auto simp: pattern_test_def dest: set_takeWhileD)
qed

lemma seg_char_safe: "seg_char c \<Longrightarrow> \<not> unsafe_char c \<and> c \<noteq> CHR ''.''"
  by (auto simp: seg_char_def unsafe_char_def less_eq_char_def)

lemma plain_lone: "\<not> str_includes s ''__'' \<Longrightarrow> \<not> str_includes s ''_:'' \<Longrightarrow> lone_underscores s"
  by (induction s rule: lone_underscores.induct) auto

lemma collapse_lone: "lone_underscores s \<Longrightarrow> collapse_underscores s = s"
proof (induction s rule: lone_underscores.induct)
  case (1 a b cs)
  then show ?case by (cases "a = CHR ''_''") auto
qed simp_all

lemma replace_unsafe_id: "\<forall>c \<in> set s. \<not> unsafe_char c \<Longrightarrow> replace_unsafe s = s"
  by (induction s) (auto simp: replace_unsafe_def)

lemma replace_colons_set:
  "c \<in> set (replace_colons s) \<Longrightarrow> c = CHR ''_'' \<or> (c \<in> set s \<and> c \<noteq> CHR '':'')"
  by (induction s) (auto simp: replace_colons_def split: if_splits)

lemma remove_first_suffix: "CHR ''.'' \<notin> set s \<Longrightarrow> remove_first ''.json'' (s @ ''.json'') = s"
  by (induction s) auto

lemma replace_triple_other: "a \<noteq> CHR ''_'' \<Longrightarrow> replace_triple (a # t) = a # replace_triple t"
  by (cases t rule: replace_triple.cases) auto

lemma replace_triple_lone:
  "b \<noteq> CHR ''_'' \<Longrightarrow> replace_triple (CHR ''_'' # b # t) = CHR ''_'' # b # replace_triple t"
  by (cases t) (auto simp: replace_triple_other)

lemma replace_colons_Cons:
  "replace_colons (c # cs) = (if c = CHR '':'' then ''___'' else [c]) @ replace_colons cs"
  by (simp add: replace_colons_def)

lemma replace_triple_colons: "lone_underscores s \<Longrightarrow> replace_triple (replace_colons s) = s"
proof (induction s rule: lone_underscores.induct)
  case (1 a b cs)
  then have ih: "replace_triple (replace_colons (b # cs)) = b # cs" by simp
  show ?case
  proof (cases "a = CHR ''_''")
    case True
    with "1.prems" have b: "b \<noteq> CHR ''_''" "b \<noteq> CHR '':''" by auto
    with ih have "replace_triple (b # replace_colons cs) = b # cs"
      by (simp add: replace_colons_Cons)
    with b have "replace_triple (replace_colons cs) = cs"
      by (simp add: replace_triple_other)
    with True b show ?thesis
      by (simp add: replace_colons_Cons replace_triple_lone)
  next
    case False
    with ih show ?thesis
      by (cases "a = CHR '':''") (simp_all add: replace_colons_Cons replace_triple_other)
  qed
qed (simp_all add: replace_colons_def)

lemma roundtrip_plain:
  assumes "pattern_test name" and "plain_underscores name"
  shows "desanitizeFilename (session_file name) = name"
proof -
  from assms(2) have lone: "lone_underscores name"
    by (simp add: plain_underscores_def plain_lone)
  have chars: "\<forall>c \<in> set name. seg_char c \<or> c = CHR '':''"
    using assms(1) pattern_test_chars by blast
  have safe: "\<forall>c \<in> set (replace_colons name). \<not> unsafe_char c \<and> c \<noteq> CHR ''.''"
  proof
    fix c assume "c \<in> set (replace_colons name)"
    then have "c = CHR ''_'' \<or> (c \<in> set name \<and> c \<noteq> CHR '':'')"
      by (rule replace_colons_set)
    then have "seg_char c" using chars by (auto simp: seg_char_def)
    then show "\<not> unsafe_char c \<and> c \<noteq> CHR ''.''" by (rule seg_char_safe)
  qed
  have enc: "sanitizeSessionName name = replace_colons name"
    using lone safe by (simp add: sanitizeSessionName_def collapse_lone replace_unsafe_id)
  have "CHR ''.'' \<notin> set (replace_colons name)" using safe by blast
  then have "remove_first ''.json'' (replace_colons name @ ''.json'') = replace_colons name"
    by (rule remove_first_suffix)
  then show ?thesis
    using lone by (simp add: desanitizeFilename_def session_file_def enc replace_triple_colons)
qed

text \<open>
  C1 (as amended). For every session name that \<open>validateSessionName\<close> accepts under the
  default pattern and in which no underscore is followed by another underscore or by a
  colon, \<open>desanitizeFilename\<close> applied to the file name built from \<open>sanitizeSessionName\<close>
  gives the name back; hence \<open>sanitizeSessionName\<close> is injective over these names.
\<close>

theorem sanitize_roundtrip:
  assumes "validateSessionName name = Inr name" and "plain_underscores name"
  shows "desanitizeFilename (sanitizeSessionName name @ ''.json'') = name \<and>
         (\<forall>other. validateSessionName other = Inr other \<and> plain_underscores other \<and>
            sanitizeSessionName other = sanitizeSessionName name \<longrightarrow> other = name)"
proof -
  have valid: "pattern_test n" if "validateSessionName n = Inr n" for n
    using that by (simp add: validateSessionName_def split: if_splits)
  have rt: "desanitizeFilename (session_file n) = n"
    if "validateSessionName n = Inr n" "plain_underscores n" for n
    using that valid roundtrip_plain by blast
  have "other = name"
    if "validateSessionName other = Inr other" "plain_underscores other"
       "sanitizeSessionName other = sanitizeSessionName name" for other
  proof -
    have "session_file other = session_file name"
      using that(3) by (simp add: session_file_def)
    then have "desanitizeFilename (session_file other) = desanitizeFilename (session_file name)"
      by simp
    then show ?thesis using rt that(1,2) assms by simp
  qed
  then show ?thesis using rt [OF assms] by (auto simp: session_file_def)
qed

theorem sanitize_roundtrip_witness:
  "validateSessionName ''thesis:NVDA:ai_dominance'' = Inr ''thesis:NVDA:ai_dominance'' \<and>
   plain_underscores ''thesis:NVDA:ai_dominance'' \<and>
   sanitizeSessionName ''thesis:NVDA:ai_dominance'' = ''thesis___NVDA___ai_dominance'' \<and>
   desanitizeFilename (sanitizeSessionName ''thesis:NVDA:ai_dominance'' @ ''.json'')
     = ''thesis:NVDA:ai_dominance''"
proof -
  have v: "validateSessionName ''thesis:NVDA:ai_dominance'' = Inr ''thesis:NVDA:ai_dominance''"
    by code_simp
  have p: "plain_underscores ''thesis:NVDA:ai_dominance''"
    by code_simp
  have s: "sanitizeSessionName ''thesis:NVDA:ai_dominance'' = ''thesis___NVDA___ai_dominance''"
    by code_simp
  have r: "desanitizeFilename (sanitizeSessionName ''thesis:NVDA:ai_dominance'' @ ''.json'')
     = ''thesis:NVDA:ai_dominance''"
    using sanitize_roundtrip [OF v p] by (rule conjunct1)
  show ?thesis using v p s r by (intro conjI)
qed

text \<open>
  C1 (as stated) fails: \<open>a__b:c:d\<close> is a valid name, its run of underscores is collapsed on
  the way to the file name, and it comes back as \<open>a_b:c:d\<close>, a different valid name with
  the same file name. An underscore before a colon joins the separator: \<open>a_:b:c\<close> comes
  back as \<open>a:_b:c\<close>.
\<close>

theorem sanitize_roundtrip_counterexample:
  "validateSessionName ''a__b:c:d'' = Inr ''a__b:c:d'' \<and>
   validateSessionName ''a_b:c:d'' = Inr ''a_b:c:d'' \<and>
   desanitizeFilename (sanitizeSessionName ''a__b:c:d'' @ ''.json'') = ''a_b:c:d'' \<and>
   desanitizeFilename (sanitizeSessionName ''a__b:c:d'' @ ''.json'') \<noteq> ''a__b:c:d'' \<and>
   sanitizeSessionName ''a__b:c:d'' = sanitizeSessionName ''a_b:c:d'' \<and>
   ''a__b:c:d'' \<noteq> ''a_b:c:d'' \<and>
   validateSessionName ''a_:b:c'' = Inr ''a_:b:c'' \<and>
   desanitizeFilename (sanitizeSessionName ''a_:b:c'' @ ''.json'') = ''a:_b:c''"
  by code_simp

section \<open>Properties of the reasoning chain\<close>













section \<open>Properties of the store and of think\<close>

lemma valid_abc: "validateSessionName ''a:b:c'' = Inr ''a:b:c''"
  by code_simp

lemma file_abc: "session_file ''a:b:c'' = ''a___b___c.json''"
  by code_simp

lemma valid_xyz: "validateSessionName ''x:y:z'' = Inr ''x:y:z''"
  by code_simp

lemma file_xyz: "session_file ''x:y:z'' = ''x___y___z.json''"
  by code_simp

lemma short_abc: "\<not> NAME_MAX < length (session_file ''a:b:c'')"
  by (simp add: file_abc NAME_MAX_def)

lemma short_xyz: "\<not> NAME_MAX < length (session_file ''x:y:z'')"
  by (simp add: file_xyz NAME_MAX_def)

lemma valid_long: "validateSessionName long_name = Inr long_name"
  by code_simp

lemma file_long: "NAME_MAX < length (session_file long_name)"
  by code_simp

lemma find_absent: "r \<notin> id_t ` set ths \<Longrightarrow> find (\<lambda>t. id_t t = r) ths = None"
  by (auto simp: find_None_iff)

lemma load_none: "st (session_file n) = None \<Longrightarrow> loadSession st n = []"
  by (simp add: loadSession_def readFile_def)

lemma load_unreadable: "st (session_file n) = Some Unreadable \<Longrightarrow> loadSession st n = []"
  by (simp add: loadSession_def readFile_def)

lemma load_json:
  "\<not> NAME_MAX < length (session_file n) \<Longrightarrow> st (session_file n) = Some (Json ths) \<Longrightarrow>
   loadSession st n = ths"
  by (simp add: loadSession_def readFile_def)

lemma load_nonempty:
  assumes "loadSession st n \<noteq> []"
  shows "\<not> NAME_MAX < length (session_file n)"
    and "st (session_file n) = Some (Json (loadSession st n))"
  using assms
  by (auto simp: loadSession_def readFile_def split: if_splits option.splits file_content.splits)

lemma save_short:
  "\<not> NAME_MAX < length (session_file n) \<Longrightarrow>
   saveSession st n ths = Inr (st(session_file n \<mapsto> Json ths))"
  by (simp add: saveSession_def writeFile_def)

lemma save_long:
  "NAME_MAX < length (session_file n) \<Longrightarrow> saveSession st n ths = Inl ENAMETOOLONG"
  by (simp add: saveSession_def writeFile_def)

lemma load_written:
  "\<not> NAME_MAX < length (session_file n) \<Longrightarrow>
   loadSession (st(session_file n \<mapsto> Json ths)) n = ths"
  by (simp add: loadSession_def readFile_def)

lemma think_without_link:
  assumes "\<not> (truthy (arg_relates_to a) \<and> truthy (arg_relationship_type a))"
    and "session_of a e = Inr session"
    and "\<not> NAME_MAX < length (session_file session)"
  shows "snd (think st a e)
           = st(session_file session \<mapsto> Json (loadSession st session @ [new_thought a e]))"
    and "map_sum (\<lambda>payload. payload) thoughtCount (fst (think st a e))
           = Inr (Suc (length (loadSession st session)))"
proof -
  from assms(1) have app: "append_thought ths t (arg_relates_to a) (arg_relationship_type a)
      = Inr (ths @ [t])" for ths t
    by (auto simp: append_thought_def truthy_def split: option.splits)
  show "snd (think st a e)
      = st(session_file session \<mapsto> Json (loadSession st session @ [new_thought a e]))"
    using assms(2,3) by (simp add: think_def Let_def app save_short)
  show "map_sum (\<lambda>payload. payload) thoughtCount (fst (think st a e))
      = Inr (Suc (length (loadSession st session)))"
    using assms(2,3) by (simp add: think_def Let_def app save_short)
qed

text \<open>
  C7. For every session name whose file is absent, \<open>loadSession\<close> returns the empty list,
  and \<open>delete_session\<close> on the same name returns an error payload and leaves the store as
  it is.
\<close>

theorem absent_read_delete_asymmetry:
  assumes "st (session_file sessionName) = None"
  shows "loadSession st sessionName = [] \<and>
         (\<exists>payload. delete_session st sessionName = (Inl payload, st))"
  using assms
  by (auto simp: load_none delete_session_def unlink_def split: sum.splits)

theorem absent_read_delete_asymmetry_witness:
  "Map.empty (session_file ''a:b:c'') = None \<and>
   loadSession Map.empty ''a:b:c'' = [] \<and>
   delete_session Map.empty ''a:b:c''
     = (Inl (FailedTo ''Failed to delete session'' ENOENT), Map.empty)"
proof -
  have h: "Map.empty (session_file ''a:b:c'') = None" by simp
  have d: "delete_session Map.empty ''a:b:c''
     = (Inl (FailedTo ''Failed to delete session'' ENOENT), Map.empty)"
    by (simp add: delete_session_def valid_abc unlink_def short_abc)
  from absent_read_delete_asymmetry [OF h] d show ?thesis by simp
qed

text \<open>
  C8 (as amended). When a call of \<open>think\<close> leaves out \<open>relates_to\<close> or \<open>relationship_type\<close>
  (or gives an empty string for it), no link is validated: none of the three link errors
  is returned. If moreover the session name is valid or omitted and the file of the
  session can be written (its name is within the limit of the file system), the call
  succeeds without related context, and the session is saved with the new thought
  appended, its \<open>relates_to\<close> and \<open>relationship_type\<close> both \<open>null\<close> and its relationship
  lists empty, the thoughts before it unchanged.
\<close>

theorem think_partial_link_dropped:
  assumes "\<not> (truthy (arg_relates_to a) \<and> truthy (arg_relationship_type a))"
  shows "fst (think st a e) \<noteq> Inl CannotReferenceSelf \<and>
         fst (think st a e) \<noteq> Inl (ReferencedThoughtNotFound r) \<and>
         fst (think st a e) \<noteq> Inl CannotReferenceFuture \<and>
         (session_of a e = Inr session \<longrightarrow> length (session_file session) \<le> NAME_MAX \<longrightarrow>
            (\<exists>response. fst (think st a e) = Inr response \<and>
               r_related_context response = None \<and> reasoning_chain response = None) \<and>
            snd (think st a e)
              = st(session_file session \<mapsto> Json (loadSession st session @ [new_thought a e]))) \<and>
         relates_to (new_thought a e) = None \<and>
         relationship_type (new_thought a e) = None \<and>
         relationships_in (new_thought a e) = [] \<and>
         relationships_out (new_thought a e) = []"
proof -
  from assms have app: "append_thought ths t (arg_relates_to a) (arg_relationship_type a)
      = Inr (ths @ [t])" for ths t
    by (auto simp: append_thought_def truthy_def split: option.splits)
  from assms have ctx: "context_of ths (arg_relates_to a) (arg_relationship_type a)
      = (None, None)" for ths
    by (auto simp: context_of_def truthy_def split: option.splits)
  have no_link: "fst (think st a e) \<noteq> Inl CannotReferenceSelf \<and>
      fst (think st a e) \<noteq> Inl (ReferencedThoughtNotFound r) \<and>
      fst (think st a e) \<noteq> Inl CannotReferenceFuture"
    by (simp add: think_def Let_def app split: sum.splits)
  have saved: "(\<exists>response. fst (think st a e) = Inr response \<and>
        r_related_context response = None \<and> reasoning_chain response = None) \<and>
      snd (think st a e)
        = st(session_file session \<mapsto> Json (loadSession st session @ [new_thought a e]))"
    if "session_of a e = Inr session" and "length (session_file session) \<le> NAME_MAX"
  proof -
    from that(2) have "\<not> NAME_MAX < length (session_file session)" by simp
    then show ?thesis
      using that(1) by (simp add: think_def Let_def app ctx save_short)
  qed
  have fields: "relates_to (new_thought a e) = None \<and>
      relationship_type (new_thought a e) = None \<and>
      relationships_in (new_thought a e) = [] \<and>
      relationships_out (new_thought a e) = []"
    by (simp add: new_thought_def)
  from no_link saved fields show ?thesis by blast
qed

theorem think_partial_link_dropped_witness:
  "\<not> (truthy (arg_relates_to (unlinked_args\<lparr>arg_relates_to := Some ''thought_1_aaaaa''\<rparr>)) \<and>
      truthy (arg_relationship_type (unlinked_args\<lparr>arg_relates_to := Some ''thought_1_aaaaa''\<rparr>))) \<and>
   session_of (unlinked_args\<lparr>arg_relates_to := Some ''thought_1_aaaaa''\<rparr>) example_env
     = Inr ''a:b:c'' \<and>
   length (session_file ''a:b:c'') \<le> NAME_MAX \<and>
   snd (think [''a___b___c.json'' \<mapsto> Json [example_thought]]
          (unlinked_args\<lparr>arg_relates_to := Some ''thought_1_aaaaa''\<rparr>) example_env)
     ''a___b___c.json''
     = Some (Json [example_thought,
                   new_thought (unlinked_args\<lparr>arg_relates_to := Some ''thought_1_aaaaa''\<rparr>)
                     example_env])"
proof -
  let ?a = "unlinked_args\<lparr>arg_relates_to := Some ''thought_1_aaaaa''\<rparr>"
  let ?st = "[''a___b___c.json'' \<mapsto> Json [example_thought]]"
  have s: "session_of ?a example_env = Inr ''a:b:c''"
    by (simp add: session_of_def unlinked_args_def valid_abc)
  have t: "\<not> (truthy (arg_relates_to ?a) \<and> truthy (arg_relationship_type ?a))"
    by (simp add: unlinked_args_def truthy_def)
  have n: "length (session_file ''a:b:c'') \<le> NAME_MAX"
    using short_abc by simp
  have l: "loadSession ?st ''a:b:c'' = [example_thought]"
    by (rule load_json [OF short_abc]) (simp add: file_abc)
  from think_partial_link_dropped [OF t, of ?st example_env _ "''a:b:c''"] s n have
    "snd (think ?st ?a example_env)
       = ?st(session_file ''a:b:c'' \<mapsto> Json (loadSession ?st ''a:b:c'' @ [new_thought ?a example_env]))"
    by blast
  then have "snd (think ?st ?a example_env) ''a___b___c.json''
       = Some (Json [example_thought, new_thought ?a example_env])"
    by (simp add: l file_abc)
  with t s n show ?thesis by (intro conjI)
qed

text \<open>
  C8 (as stated) fails where the call does not get to save the thought. With an invalid
  session name the call returns the validation error, and with a valid name whose file
  name is longer than the file system allows the write fails: in both cases
  \<open>relates_to\<close> is given without \<open>relationship_type\<close>, an error payload is returned and
  nothing is saved.
\<close>

theorem think_partial_link_dropped_counterexample:
  "think Map.empty
     (unlinked_args\<lparr>arg_sessionName := Some ''notes'', arg_relates_to := Some ''thought_1_aaaaa''\<rparr>)
     example_env
     = (Inl (Thrown InvalidSessionNameFormat), Map.empty) \<and>
   validateSessionName long_name = Inr long_name \<and>
   think Map.empty
     (unlinked_args\<lparr>arg_sessionName := Some long_name, arg_relates_to := Some ''thought_1_aaaaa''\<rparr>)
     example_env
     = (Inl (Thrown ENAMETOOLONG), Map.empty)"
proof -
  have v: "validateSessionName ''notes'' = Inl InvalidSessionNameFormat"
    by code_simp
  have ne: "long_name \<noteq> []"
    by (simp add: long_name_def)
  have "think Map.empty
     (unlinked_args\<lparr>arg_sessionName := Some ''notes'', arg_relates_to := Some ''thought_1_aaaaa''\<rparr>)
     example_env
     = (Inl (Thrown InvalidSessionNameFormat), Map.empty)"
    by (simp add: think_def session_of_def unlinked_args_def v)
  moreover have "think Map.empty
     (unlinked_args\<lparr>arg_sessionName := Some long_name, arg_relates_to := Some ''thought_1_aaaaa''\<rparr>)
     example_env
     = (Inl (Thrown ENAMETOOLONG), Map.empty)"
    by (simp add: think_def session_of_def unlinked_args_def ne valid_long Let_def
        append_thought_def save_long [OF file_long])
  ultimately show ?thesis using valid_long by (intro conjI)
qed

text \<open>
  C4 (as amended). When a call of \<open>think\<close> (with a valid or omitted session name)
  supplies both a non-empty \<open>relates_to\<close> and a non-empty \<open>relationship_type\<close>, and
  \<open>relates_to\<close> is neither the id of a thought of the session nor the id generated for
  the new thought, the call returns the payload "Referenced thought not found" and the
  store is unchanged.
\<close>

theorem think_target_not_found:
  assumes "session_of a e = Inr session"
    and "arg_relates_to a = Some r" and "r \<noteq> []"
    and "arg_relationship_type a = Some ty" and "ty \<noteq> []"
    and "r \<noteq> generated_id e"
    and "r \<notin> id_t ` set (loadSession st session)"
  shows "think st a e = (Inl (ReferencedThoughtNotFound r), st)"
  using assms
  by (simp add: think_def Let_def append_thought_def new_thought_def find_absent)

theorem think_target_not_found_witness:
  "session_of (unlinked_args\<lparr>arg_relates_to := Some ''missing'',
                              arg_relationship_type := Some ''supports''\<rparr>) example_env
     = Inr ''a:b:c'' \<and>
   ''missing'' \<noteq> generated_id example_env \<and>
   ''missing'' \<notin> id_t ` set (loadSession Map.empty ''a:b:c'') \<and>
   think Map.empty (unlinked_args\<lparr>arg_relates_to := Some ''missing'',
                                  arg_relationship_type := Some ''supports''\<rparr>) example_env
     = (Inl (ReferencedThoughtNotFound ''missing''), Map.empty)"
proof -
  let ?a = "unlinked_args\<lparr>arg_relates_to := Some ''missing'',
                            arg_relationship_type := Some ''supports''\<rparr>"
  have s: "session_of ?a example_env = Inr ''a:b:c''"
    by (simp add: session_of_def unlinked_args_def valid_abc)
  have g: "''missing'' \<noteq> generated_id example_env"
    by (simp add: generated_id_def)
  have l: "''missing'' \<notin> id_t ` set (loadSession Map.empty ''a:b:c'')"
    by (simp add: load_none)
  have r: "arg_relates_to ?a = Some ''missing''" "''missing'' \<noteq> []"
    by simp_all
  have t: "arg_relationship_type ?a = Some ''supports''" "''supports'' \<noteq> []"
    by simp_all
  have "think Map.empty ?a example_env = (Inl (ReferencedThoughtNotFound ''missing''), Map.empty)"
    by (rule think_target_not_found [OF s r t g l])
  with s g l show ?thesis by (intro conjI)
qed

text \<open>
  C4 (as stated) fails when \<open>relationship_type\<close> is left out: \<open>relates_to\<close> names no
  thought of the (empty) session, yet the call succeeds and the thought is saved.
\<close>

theorem think_target_not_found_counterexample:
  "map_sum (\<lambda>payload. payload) thoughtCount
     (fst (think Map.empty (unlinked_args\<lparr>arg_relates_to := Some ''missing''\<rparr>) example_env))
     = Inr 1 \<and>
   map content
     (loadSession
        (snd (think Map.empty (unlinked_args\<lparr>arg_relates_to := Some ''missing''\<rparr>) example_env))
        ''a:b:c'')
     = [''first'']"
proof -
  let ?a = "unlinked_args\<lparr>arg_relates_to := Some ''missing''\<rparr>"
  have s: "session_of ?a example_env = Inr ''a:b:c''"
    by (simp add: session_of_def unlinked_args_def valid_abc)
  have t: "\<not> (truthy (arg_relates_to ?a) \<and> truthy (arg_relationship_type ?a))"
    by (simp add: unlinked_args_def truthy_def)
  note w = think_without_link [OF t s short_abc, of Map.empty]
  have c: "content (new_thought ?a example_env) = ''first''"
    by (simp add: new_thought_def unlinked_args_def)
  have "loadSession (snd (think Map.empty ?a example_env)) ''a:b:c''
      = loadSession Map.empty ''a:b:c'' @ [new_thought ?a example_env]"
    by (simp only: w(1) load_written [OF short_abc])
  then have "map content (loadSession (snd (think Map.empty ?a example_env)) ''a:b:c'') = [''first'']"
    by (simp add: load_none c)
  moreover from w(2) have "map_sum (\<lambda>payload. payload) thoughtCount
      (fst (think Map.empty ?a example_env)) = Inr 1"
    by (simp add: load_none)
  ultimately show ?thesis by (intro conjI)
qed

section \<open>Properties of rename and of unreadable files\<close>

text \<open>
  C9 (as amended). When both names are valid, the source session is not empty, and the
  two names have different files, \<open>rename_session\<close> onto a destination that already
  holds a non-empty session reports success, without error or warning; afterwards the
  destination holds the thoughts of the source (its own are gone) and the source is
  absent.
\<close>

theorem rename_overwrites_destination:
  assumes "validateSessionName src = Inr src"
    and "validateSessionName dst = Inr dst"
    and "loadSession st src \<noteq> []"
    and "loadSession st dst \<noteq> []"
    and "session_file src \<noteq> session_file dst"
  shows "fst (rename_session st src dst)
           = Inr \<lparr>oldName = src, newName = dst,
                  renamed_thoughtCount = length (loadSession st src)\<rparr> \<and>
         loadSession (snd (rename_session st src dst)) dst = loadSession st src \<and>
         loadSession (snd (rename_session st src dst)) src = []"
proof -
  let ?ths = "loadSession st src"
  let ?st1 = "st(session_file dst \<mapsto> Json ?ths)"
  note s = load_nonempty [OF assms(3)] and d = load_nonempty [OF assms(4)]
  have w: "saveSession st dst ?ths = Inr ?st1"
    by (rule save_short [OF d(1)])
  have u: "unlink ?st1 (session_file src) = Inr (?st1(session_file src := None))"
    using s assms(5) by (simp add: unlink_def)
  have r: "rename_session st src dst
      = (Inr \<lparr>oldName = src, newName = dst, renamed_thoughtCount = length ?ths\<rparr>,
         ?st1(session_file src := None))"
    using assms(1,2,3) by (simp add: rename_session_def Let_def w u)
  have "loadSession (?st1(session_file src := None)) dst = ?ths"
    using assms(5) by (intro load_json [OF d(1)]) simp
  moreover have "loadSession (?st1(session_file src := None)) src = []"
    by (intro load_none) simp
  ultimately show ?thesis by (simp add: r)
qed

theorem rename_overwrites_destination_witness:
  "validateSessionName ''a:b:c'' = Inr ''a:b:c'' \<and>
   validateSessionName ''x:y:z'' = Inr ''x:y:z'' \<and>
   loadSession [''a___b___c.json'' \<mapsto> Json [example_thought],
                ''x___y___z.json'' \<mapsto> Json [example_thought\<lparr>content := ''lost''\<rparr>]] ''a:b:c''
     = [example_thought] \<and>
   loadSession [''a___b___c.json'' \<mapsto> Json [example_thought],
                ''x___y___z.json'' \<mapsto> Json [example_thought\<lparr>content := ''lost''\<rparr>]] ''x:y:z''
     = [example_thought\<lparr>content := ''lost''\<rparr>] \<and>
   session_file ''a:b:c'' \<noteq> session_file ''x:y:z'' \<and>
   loadSession
     (snd (rename_session
             [''a___b___c.json'' \<mapsto> Json [example_thought],
              ''x___y___z.json'' \<mapsto> Json [example_thought\<lparr>content := ''lost''\<rparr>]]
             ''a:b:c'' ''x:y:z'')) ''x:y:z''
     = [example_thought]"
proof -
  let ?st = "[''a___b___c.json'' \<mapsto> Json [example_thought],
              ''x___y___z.json'' \<mapsto> Json [example_thought\<lparr>content := ''lost''\<rparr>]]"
  have l1: "loadSession ?st ''a:b:c'' = [example_thought]"
    by (rule load_json [OF short_abc]) (simp add: file_abc)
  have l2: "loadSession ?st ''x:y:z'' = [example_thought\<lparr>content := ''lost''\<rparr>]"
    by (rule load_json [OF short_xyz]) (simp add: file_xyz)
  have d: "session_file ''a:b:c'' \<noteq> session_file ''x:y:z''"
    by (simp add: file_abc file_xyz)
  have n1: "loadSession ?st ''a:b:c'' \<noteq> []" by (simp only: l1) simp
  have n2: "loadSession ?st ''x:y:z'' \<noteq> []" by (simp only: l2) simp
  from rename_overwrites_destination [OF valid_abc valid_xyz n1 n2 d]
  have "loadSession (snd (rename_session ?st ''a:b:c'' ''x:y:z'')) ''x:y:z'' = loadSession ?st ''a:b:c''"
    by blast
  then have "loadSession (snd (rename_session ?st ''a:b:c'' ''x:y:z'')) ''x:y:z'' = [example_thought]"
    by (simp only: l1)
  with valid_abc valid_xyz l1 l2 d show ?thesis by (intro conjI)
qed

text \<open>
  C9 (as stated) fails in two ways. When the source session is absent, the call returns
  "Session not found" and the destination keeps its thoughts. When both names are the
  same session, which then is the non-empty session that exists under the new name, the
  call reports success and the file just saved is deleted, so the destination holds
  nothing.
\<close>

theorem rename_overwrites_destination_counterexample:
  "loadSession [''x___y___z.json'' \<mapsto> Json [example_thought]] ''x:y:z'' = [example_thought] \<and>
   rename_session [''x___y___z.json'' \<mapsto> Json [example_thought]] ''a:b:c'' ''x:y:z''
     = (Inl (SessionNotFound ''a:b:c''), [''x___y___z.json'' \<mapsto> Json [example_thought]]) \<and>
   loadSession [''a___b___c.json'' \<mapsto> Json [example_thought]] ''a:b:c'' = [example_thought] \<and>
   fst (rename_session [''a___b___c.json'' \<mapsto> Json [example_thought]] ''a:b:c'' ''a:b:c'')
     = Inr \<lparr>oldName = ''a:b:c'', newName = ''a:b:c'', renamed_thoughtCount = 1\<rparr> \<and>
   loadSession
     (snd (rename_session [''a___b___c.json'' \<mapsto> Json [example_thought]] ''a:b:c'' ''a:b:c''))
     ''a:b:c'' = []"
  by (simp add: rename_session_def valid_abc valid_xyz file_abc file_xyz loadSession_def
      readFile_def saveSession_def writeFile_def unlink_def NAME_MAX_def Let_def)

text \<open>
  C10 (as amended). \<open>loadSession\<close> returns the empty list for a file that cannot be read
  or parsed, and the operations that see a session only through \<open>loadSession\<close>
  (\<open>view_session\<close>, \<open>search_in_session\<close>, the existence check of \<open>rename_session\<close>) give
  on such a file what they give when the file is absent: for valid names
  \<open>search_in_session\<close> reports "Session not found or empty" and \<open>rename_session\<close> reports
  "Session not found", leaving the store as it is. No read error is passed on.
\<close>

theorem unreadable_as_absent:
  assumes "st (session_file sessionName) = Some Unreadable"
  shows "loadSession st sessionName = [] \<and>
         loadSession st sessionName = loadSession (st(session_file sessionName := None)) sessionName \<and>
         view_session st sessionName limit offset
           = view_session (st(session_file sessionName := None)) sessionName limit offset \<and>
         search_in_session st sessionName query n offset
           = search_in_session (st(session_file sessionName := None)) sessionName query n offset \<and>
         fst (rename_session st sessionName dst)
           = fst (rename_session (st(session_file sessionName := None)) sessionName dst) \<and>
         snd (rename_session st sessionName dst) = st \<and>
         (validateSessionName sessionName = Inr sessionName \<longrightarrow>
            search_in_session st sessionName query n offset
              = Inl (SessionNotFoundOrEmpty sessionName) \<and>
            (validateSessionName dst = Inr dst \<longrightarrow>
               fst (rename_session st sessionName dst) = Inl (SessionNotFound sessionName)))"
proof -
  have l: "loadSession st sessionName = []"
    using assms by (rule load_unreadable)
  have l0: "loadSession (st(session_file sessionName := None)) sessionName = []"
    by (simp add: load_none)
  show ?thesis
    by (simp add: l l0 view_session_def search_in_session_def rename_session_def Let_def
        split: sum.splits)
qed

theorem unreadable_as_absent_witness:
  "[''a___b___c.json'' \<mapsto> Unreadable] (session_file ''a:b:c'') = Some Unreadable \<and>
   validateSessionName ''a:b:c'' = Inr ''a:b:c'' \<and>
   validateSessionName ''x:y:z'' = Inr ''x:y:z'' \<and>
   loadSession [''a___b___c.json'' \<mapsto> Unreadable] ''a:b:c'' = [] \<and>
   search_in_session [''a___b___c.json'' \<mapsto> Unreadable] ''a:b:c'' ''alpha'' 10 0
     = Inl (SessionNotFoundOrEmpty ''a:b:c'') \<and>
   fst (rename_session [''a___b___c.json'' \<mapsto> Unreadable] ''a:b:c'' ''x:y:z'')
     = Inl (SessionNotFound ''a:b:c'')"
proof -
  let ?st = "[''a___b___c.json'' \<mapsto> Unreadable]"
  have h: "?st (session_file ''a:b:c'') = Some Unreadable"
    by (simp add: file_abc)
  from unreadable_as_absent
         [where st = ?st and sessionName = "''a:b:c''" and query = "''alpha''" and n = 10
            and offset = 0 and dst = "''x:y:z''", OF h]
       valid_abc valid_xyz
  have "loadSession ?st ''a:b:c'' = []"
    and "search_in_session ?st ''a:b:c'' ''alpha'' 10 0 = Inl (SessionNotFoundOrEmpty ''a:b:c'')"
    and "fst (rename_session ?st ''a:b:c'' ''x:y:z'') = Inl (SessionNotFound ''a:b:c'')"
    by blast+
  with h valid_abc valid_xyz show ?thesis by (intro conjI)
qed

text \<open>
  C10 (as stated) fails for \<open>get_session_info\<close>, which also looks at the file itself: it
  reports \<open>exists = true\<close> for an unreadable file and \<open>exists = false\<close> for an absent
  one.
\<close>

theorem unreadable_as_absent_counterexample:
  "map_sum (\<lambda>payload. payload) info_exists
     (get_session_info [''a___b___c.json'' \<mapsto> Unreadable] ''a:b:c'') = Inr True \<and>
   map_sum (\<lambda>payload. payload) info_exists
     (get_session_info ([''a___b___c.json'' \<mapsto> Unreadable](''a___b___c.json'' := None)) ''a:b:c'')
     = Inr False"
  by (simp add: get_session_info_def valid_abc file_abc loadSession_def readFile_def stat_def
      NAME_MAX_def Let_def)

section \<open>Properties of search in session\<close>

lemma search_results_eq:
  assumes "search_in_session st sessionName query limit offset = Inr response"
  shows "results response =
           take limit (drop offset
             (sort_by_score (matching_results (toLowerCase query) (loadSession st sessionName))))"
    and "result_count response = length (results response)"
  using assms
  by (auto simp: search_in_session_def Let_def split: sum.splits if_splits)

lemma matching_results_length:
  "length (matching_results q ths) = length (filter (matches_query q) ths)"
  by (simp add: matching_results_def)

lemma sort_by_score_length: "length (sort_by_score rs) = length rs"
  by (simp add: sort_by_score_def)

lemma example_load: "loadSession example_store ''a:b:c'' = example_session"
  by (rule load_json [OF short_abc]) (simp add: file_abc example_store_def)

lemma example_nonempty: "example_session \<noteq> []"
  by (simp add: example_session_def)

lemma example_search:
  "search_in_session example_store ''a:b:c'' ''Alpha'' limit offset
     = Inr \<lparr>search_sessionName = ''a:b:c'', search_query = ''Alpha'',
            results = take limit (drop offset
              (sort_by_score (matching_results (toLowerCase ''Alpha'') example_session))),
            result_count = length (take limit (drop offset
              (sort_by_score (matching_results (toLowerCase ''Alpha'') example_session)))),
            search_offset = offset, search_limit = limit\<rparr>"
  by (simp add: search_in_session_def valid_abc example_load example_nonempty Let_def)

lemma example_matches:
  "map sr_id (matching_results (toLowerCase ''Alpha'') example_session)
     = [''thought_1_aaaaa'', ''thought_3_ccccc'', ''thought_4_ddddd'']"
  by code_simp

lemma example_sorted:
  "map (\<lambda>r. (sr_id r, relevance_score r))
     (sort_by_score (matching_results (toLowerCase ''Alpha'') example_session))
     = [(''thought_3_ccccc'', 17), (''thought_1_aaaaa'', 12), (''thought_4_ddddd'', 12)]"
  by code_simp

lemma example_total:
  "length (filter (matches_query (toLowerCase ''Alpha'')) example_session) = 3"
  using arg_cong [OF example_matches, of length] by (simp add: matching_results_def)

lemma page_size: "int (min l (m - k)) = min (int l) (max 0 (int m - int k))"
  by (cases "k \<le> m") (auto simp: min_def max_def of_nat_diff)

text \<open>
  C2 (as amended). For integer \<open>limit\<close> and \<open>offset\<close>, the \<open>count\<close> field that
  \<open>search_in_session\<close> returns is the number of results on the returned page:
  \<open>min(limit, max(0, M - offset))\<close>, where \<open>M\<close> is the number of thoughts that pass the
  match filter (content, a tag or the mode contains the query, case-insensitively). The
  response has no field for \<open>M\<close> itself.
\<close>

theorem search_count_is_page_size:
  assumes "search_in_session st sessionName query limit offset = Inr response"
  shows "result_count response = length (results response) \<and>
         int (result_count response) =
           min (int limit)
             (max 0 (int (length (filter (matches_query (toLowerCase query))
                                    (loadSession st sessionName))) - int offset))"
proof -
  let ?M = "length (filter (matches_query (toLowerCase query)) (loadSession st sessionName))"
  have c: "result_count response = length (results response)"
    by (rule search_results_eq(2) [OF assms])
  have "result_count response = min limit (?M - offset)"
    using search_results_eq [OF assms]
    by (simp add: matching_results_length sort_by_score_length min.commute)
  then have "int (result_count response) = int (min limit (?M - offset))" by simp
  also have "\<dots> = min (int limit) (max 0 (int ?M - int offset))" by (rule page_size)
  finally show ?thesis using c by simp
qed

theorem search_count_is_page_size_witness:
  "map_sum (\<lambda>payload. payload) result_count
     (search_in_session example_store ''a:b:c'' ''Alpha'' 2 1) = Inr 2 \<and>
   map_sum (\<lambda>payload. payload) result_count
     (search_in_session example_store ''a:b:c'' ''Alpha'' 2 5) = Inr 0 \<and>
   length (filter (matches_query (toLowerCase ''Alpha'')) (loadSession example_store ''a:b:c'')) = 3"
proof -
  have "int (result_count r) = min (int l) (max 0 (3 - int k))"
    if "search_in_session example_store ''a:b:c'' ''Alpha'' l k = Inr r" for l k r
    using search_count_is_page_size [OF that] by (simp add: example_load example_total)
  from this [OF example_search [of 2 1]] this [OF example_search [of 2 5]]
  show ?thesis
    by (simp add: example_search example_load example_total)
qed

text \<open>
  C2 (as stated) fails: with three matching thoughts, \<open>limit = 2\<close> and \<open>offset = 0\<close> the
  count is 2.
\<close>

theorem search_count_is_page_size_counterexample:
  "map_sum (\<lambda>payload. payload) result_count
     (search_in_session example_store ''a:b:c'' ''Alpha'' 2 0) = Inr 2 \<and>
   length (filter (matches_query (toLowerCase ''Alpha'')) (loadSession example_store ''a:b:c'')) = 3"
  using arg_cong [OF example_sorted, of length]
  by (simp add: example_search example_load example_total)






section \<open>Consistency of the relationship lists\<close>

lemma push_relationship_in_map:
  "distinct (map id_t ths) \<Longrightarrow>
   push_relationship_in r entry ths =
     map (\<lambda>t. if id_t t = r then t\<lparr>relationships_in := relationships_in t @ [entry]\<rparr> else t) ths"
proof (induction ths)
  case Nil
  then show ?case by simp
next
  case (Cons t ts)
  show ?case
  proof (cases "id_t t = r")
    case True
    with Cons.prems have "\<forall>u \<in> set ts. id_t u \<noteq> r" by (auto simp: image_iff)
    then have "map (\<lambda>t. if id_t t = r then t\<lparr>relationships_in := relationships_in t @ [entry]\<rparr>
        else t) ts = ts"
      by (intro map_idI) simp
    with True show ?thesis by simp
  next
    case False
    with Cons show ?thesis by simp
  qed
qed

lemma fresh_not_linked:
  assumes "links_closed ths" and "n \<notin> id_t ` set ths" and "t \<in> set ths"
  shows "\<lparr>thought_id = n, rel_type = T\<rparr> \<notin> set (relationships_in t)"
    and "\<lparr>thought_id = n, rel_type = T\<rparr> \<notin> set (relationships_out t)"
proof -
  have "thought_id entry \<in> id_t ` set ths"
    if "entry \<in> set (relationships_in t) \<union> set (relationships_out t)" for entry
    using assms(1,3) that unfolding links_closed_def by blast
  from this [of "\<lparr>thought_id = n, rel_type = T\<rparr>"] assms(2)
  show "\<lparr>thought_id = n, rel_type = T\<rparr> \<notin> set (relationships_in t)"
    and "\<lparr>thought_id = n, rel_type = T\<rparr> \<notin> set (relationships_out t)"
    by auto
qed

lemma append_plain_invariant:
  assumes closed: "links_closed ths" and cons: "links_consistent ths"
    and fresh: "id_t N \<notin> id_t ` set ths"
    and empty: "relationships_in N = []" "relationships_out N = []"
  shows "links_closed (ths @ [N]) \<and> links_consistent (ths @ [N])"
proof
  show "links_closed (ths @ [N])"
    using closed fresh empty by (auto simp: links_closed_def)
next
  have no_in: "\<lparr>thought_id = id_t N, rel_type = T\<rparr> \<notin> set (relationships_in B)"
    if "B \<in> set ths" for B T
    by (rule fresh_not_linked(1) [OF closed fresh that])
  have no_out: "\<lparr>thought_id = id_t N, rel_type = T\<rparr> \<notin> set (relationships_out A)"
    if "A \<in> set ths" for A T
    by (rule fresh_not_linked(2) [OF closed fresh that])
  show "links_consistent (ths @ [N])"
    using cons empty no_in no_out by (auto simp: links_consistent_def)
qed

lemma append_linked_invariant:
  assumes closed: "links_closed ths" and cons: "links_consistent ths"
    and fresh: "id_t N \<notin> id_t ` set ths"
    and empty: "relationships_in N = []" "relationships_out N = []"
    and target: "r \<in> id_t ` set ths"
    and f_def: "f = (\<lambda>t. if id_t t = r
      then t\<lparr>relationships_in := relationships_in t @ [\<lparr>thought_id = id_t N, rel_type = ty\<rparr>]\<rparr>
      else t)"
    and N'_def: "N' = N\<lparr>relates_to := Some r, relationship_type := Some ty,
      relationships_out := relationships_out N @ [\<lparr>thought_id = r, rel_type = ty\<rparr>]\<rparr>"
  shows "links_closed (map f ths @ [N']) \<and> links_consistent (map f ths @ [N'])"
proof
  have ids: "map id_t (map f ths) = map id_t ths"
    by (simp add: f_def)
  have idf: "id_t (f t) = id_t t" for t by (simp add: f_def)
  have outf: "relationships_out (f t) = relationships_out t" for t by (simp add: f_def)
  have inf: "set (relationships_in (f t)) =
      (if id_t t = r then insert \<lparr>thought_id = id_t N, rel_type = ty\<rparr> (set (relationships_in t))
       else set (relationships_in t))" for t
    by (simp add: f_def)
  have idN: "id_t N' = id_t N" and inN: "relationships_in N' = []"
    and outN: "relationships_out N' = [\<lparr>thought_id = r, rel_type = ty\<rparr>]"
    using empty by (simp_all add: N'_def)
  have rN: "r \<noteq> id_t N" using target fresh by (auto simp: image_iff)
  have no_in: "\<lparr>thought_id = id_t N, rel_type = T\<rparr> \<notin> set (relationships_in B)"
    if "B \<in> set ths" for B T
    by (rule fresh_not_linked(1) [OF closed fresh that])
  have no_out: "\<lparr>thought_id = id_t N, rel_type = T\<rparr> \<notin> set (relationships_out A)"
    if "A \<in> set ths" for A T
    by (rule fresh_not_linked(2) [OF closed fresh that])
  have old: "(\<lparr>thought_id = id_t A, rel_type = T\<rparr> \<in> set (relationships_in B)) =
      (\<lparr>thought_id = id_t B, rel_type = T\<rparr> \<in> set (relationships_out A))"
    if "A \<in> set ths" "B \<in> set ths" for A B T
    using cons that by (simp add: links_consistent_def)
  show "links_closed (map f ths @ [N'])"
  proof -
    have "distinct (map id_t (map f ths @ [N']))"
      using closed fresh by (simp add: ids idN links_closed_def del: map_map)
    moreover have "thought_id entry \<in> id_t ` set (map f ths @ [N'])"
      if "t \<in> set (map f ths @ [N'])"
        "entry \<in> set (relationships_in t) \<union> set (relationships_out t)" for t entry
    proof -
      have img: "id_t ` f ` set ths = id_t ` set ths"
        by (simp add: image_image idf)
      from that(1) consider "t = N'" | u where "u \<in> set ths" "t = f u" by auto
      then show ?thesis
      proof cases
        case 1
        with that(2) target show ?thesis by (simp add: img idN inN outN)
      next
        case 2
        with that(2) closed show ?thesis
          by (auto simp: img idN inf outf links_closed_def split: if_splits)
      qed
    qed
    ultimately show ?thesis by (simp add: links_closed_def)
  qed
  show "links_consistent (map f ths @ [N'])"
    unfolding links_consistent_def
  proof (intro ballI allI)
    fix A B T
    assume A: "A \<in> set (map f ths @ [N'])" and B: "B \<in> set (map f ths @ [N'])"
    from A consider "A = N'" | a where "a \<in> set ths" "A = f a" by auto
    then show "(\<lparr>thought_id = id_t A, rel_type = T\<rparr> \<in> set (relationships_in B)) =
        (\<lparr>thought_id = id_t B, rel_type = T\<rparr> \<in> set (relationships_out A))"
    proof cases
      case 1
      from B consider "B = N'" | b where "b \<in> set ths" "B = f b" by auto
      then show ?thesis
      proof cases
        case 1
        with \<open>A = N'\<close> rN show ?thesis by (simp add: idN inN outN)
      next
        case 2
        with \<open>A = N'\<close> no_in [of b T] show ?thesis
          by (auto simp: idN outN idf inf)
      qed
    next
      case 2
      from B consider "B = N'" | b where "b \<in> set ths" "B = f b" by auto
      then show ?thesis
      proof cases
        case 1
        with 2 no_out [of a T] show ?thesis by (simp add: idN inN outf)
      next
        case b: 2
        from 2 fresh have "id_t a \<noteq> id_t N" by (auto simp: image_iff)
        with 2 b old [of a b T] show ?thesis by (auto simp: idf inf outf)
      qed
    qed
  qed
qed


lemma append_thought_invariant:
  assumes closed: "links_closed ths" and cons: "links_consistent ths"
    and fresh: "id_t N \<notin> id_t ` set ths"
    and empty: "relationships_in N = []" "relationships_out N = []"
    and app: "append_thought ths N r_arg ty_arg = Inr ths'"
  shows "links_closed ths' \<and> links_consistent ths'"
proof (cases "\<exists>r ty. r_arg = Some r \<and> ty_arg = Some ty \<and> r \<noteq> [] \<and> ty \<noteq> []")
  case False
  with app have "ths' = ths @ [N]"
    by (auto simp: append_thought_def split: option.splits if_splits)
  with append_plain_invariant [OF closed cons fresh empty] show ?thesis by simp
next
  case True
  then obtain r ty where args: "r_arg = Some r" "ty_arg = Some ty" "r \<noteq> []" "ty \<noteq> []"
    by blast
  from app args obtain referenced where found: "find (\<lambda>t. id_t t = r) ths = Some referenced"
    and ths': "ths' = push_relationship_in r \<lparr>thought_id = id_t N, rel_type = ty\<rparr> ths
        @ [N\<lparr>relates_to := Some r, relationship_type := Some ty,
             relationships_out := relationships_out N @ [\<lparr>thought_id = r, rel_type = ty\<rparr>]\<rparr>]"
    by (auto simp: append_thought_def split: option.splits if_splits)
  from found have target: "r \<in> id_t ` set ths"
    by (auto simp: find_Some_iff)
  from closed have "distinct (map id_t ths)" by (simp add: links_closed_def)
  then have "push_relationship_in r \<lparr>thought_id = id_t N, rel_type = ty\<rparr> ths
      = map (\<lambda>t. if id_t t = r
          then t\<lparr>relationships_in := relationships_in t @ [\<lparr>thought_id = id_t N, rel_type = ty\<rparr>]\<rparr>
          else t) ths"
    by (rule push_relationship_in_map)
  with ths' append_linked_invariant [OF closed cons fresh empty target refl refl, of ty]
  show ?thesis by simp
qed

lemma push_relationship_in_ids: "map id_t (push_relationship_in r entry ths) = map id_t ths"
  by (induction ths) auto

lemma append_thought_ids:
  assumes "append_thought ths N r_arg ty_arg = Inr ths'"
  shows "map id_t ths' = map id_t ths @ [id_t N]"
  using assms
  by (auto simp: append_thought_def push_relationship_in_ids split: option.splits if_splits)

lemma think_appends:
  assumes "session_of a e = Inr session" and "think st a e = (Inr response, st')"
  shows "append_thought (loadSession st session) (new_thought a e)
           (arg_relates_to a) (arg_relationship_type a) = Inr (loadSession st' session)"
proof -
  from assms obtain saved
    where a: "append_thought (loadSession st session) (new_thought a e)
                (arg_relates_to a) (arg_relationship_type a) = Inr saved"
      and w: "saveSession st session saved = Inr st'"
    by (auto simp: think_def Let_def split: sum.splits)
  from w have "\<not> NAME_MAX < length (session_file session)"
    and "st' = st(session_file session \<mapsto> Json saved)"
    by (auto simp: saveSession_def writeFile_def split: if_splits)
  then have "loadSession st' session = saved" by (simp add: load_written)
  with a show ?thesis by simp
qed

lemma think_succeeds:
  assumes "session_of a e = Inr session"
    and "append_thought (loadSession st session) (new_thought a e)
           (arg_relates_to a) (arg_relationship_type a) = Inr saved"
    and "\<not> NAME_MAX < length (session_file session)"
  shows "\<exists>response. think st a e = (Inr response, st(session_file session \<mapsto> Json saved))"
  using assms by (simp add: think_def Let_def save_short)

lemma reachable_invariant:
  "reachable ths \<Longrightarrow> distinct (map id_t ths) \<Longrightarrow> links_closed ths \<and> links_consistent ths"
proof (induction rule: reachable.induct)
  case start
  show ?case by (simp add: links_closed_def links_consistent_def)
next
  case (step st session a e response st')
  note app = think_appends [OF step.hyps(2,3)]
  have ids: "map id_t (loadSession st' session)
      = map id_t (loadSession st session) @ [id_t (new_thought a e)]"
    by (rule append_thought_ids [OF app])
  from step.prems have d: "distinct (map id_t (loadSession st session))"
    and fresh: "id_t (new_thought a e) \<notin> id_t ` set (loadSession st session)"
    by (simp_all add: ids)
  from step.IH [OF d] have closed: "links_closed (loadSession st session)"
    and cons: "links_consistent (loadSession st session)" by simp_all
  show ?case
    by (rule append_thought_invariant [OF closed cons fresh _ _ app])
      (simp_all add: new_thought_def)
qed

text \<open>
  C5 (as amended). In every session reached from the empty session by successful calls
  of \<open>think\<close> in which the ids of the thoughts are pairwise distinct (every call generated
  an id new to the session), for all thoughts \<open>A\<close> and \<open>B\<close> of the session and every
  relationship type \<open>T\<close>: the \<open>relationships_in\<close> of \<open>B\<close> hold the entry \<open>{A, T}\<close> if and
  only if the \<open>relationships_out\<close> of \<open>A\<close> hold the entry \<open>{B, T}\<close>.
\<close>

theorem relationships_consistent:
  assumes "reachable thoughts" and "distinct (map id_t thoughts)"
    and "A \<in> set thoughts" and "B \<in> set thoughts"
  shows "(\<lparr>thought_id = id_t A, rel_type = T\<rparr> \<in> set (relationships_in B)) =
         (\<lparr>thought_id = id_t B, rel_type = T\<rparr> \<in> set (relationships_out A))"
  using reachable_invariant [OF assms(1,2)] assms(3,4)
  by (simp add: links_consistent_def)

lemma generated_ids:
  "generated_id example_env = ''thought_5_abcde''" "generated_id later_env = ''thought_6_abcde''"
  "generated_id other_env = ''thought_5_fghij''"
  by code_simp+

lemma example_session_of:
  "session_of unlinked_args e = Inr ''a:b:c''" "session_of linked_args e = Inr ''a:b:c''"
  "session_of second_args e = Inr ''a:b:c''" "session_of repeated_args e = Inr ''a:b:c''"
  by (simp_all add: session_of_def unlinked_args_def linked_args_def second_args_def
      repeated_args_def valid_abc)

lemma example_links:
  "arg_relates_to unlinked_args = None" "arg_relationship_type unlinked_args = None"
  "arg_relates_to linked_args = Some ''thought_5_abcde''"
  "arg_relationship_type linked_args = Some ''builds_on''"
  "arg_relates_to second_args = None" "arg_relationship_type second_args = None"
  "arg_relates_to repeated_args = Some ''thought_5_fghij''"
  "arg_relationship_type repeated_args = Some ''supports''"
  by (simp_all add: unlinked_args_def linked_args_def second_args_def repeated_args_def)

lemma example_stamps: "stamp example_env = 7" "stamp later_env = 8" "stamp other_env = 7"
  by (simp_all add: example_env_def later_env_def other_env_def)

lemma example_new_thoughts:
  "new_thought unlinked_args example_env
     = \<lparr>id_t = ''thought_5_abcde'', content = ''first'', mode = ''linear'', tags = [],
        timestamp = 7, relates_to = None, relationship_type = None, relationships_in = [],
        relationships_out = []\<rparr>"
  "new_thought linked_args later_env
     = \<lparr>id_t = ''thought_6_abcde'', content = ''second'', mode = ''linear'', tags = [],
        timestamp = 8, relates_to = None, relationship_type = None, relationships_in = [],
        relationships_out = []\<rparr>"
  "new_thought second_args other_env
     = \<lparr>id_t = ''thought_5_fghij'', content = ''second'', mode = ''linear'', tags = [],
        timestamp = 7, relates_to = None, relationship_type = None, relationships_in = [],
        relationships_out = []\<rparr>"
  "new_thought repeated_args example_env
     = \<lparr>id_t = ''thought_5_abcde'', content = ''third'', mode = ''linear'', tags = [],
        timestamp = 7, relates_to = None, relationship_type = None, relationships_in = [],
        relationships_out = []\<rparr>"
  by (simp_all add: new_thought_def generated_ids example_stamps unlinked_args_def
      linked_args_def second_args_def repeated_args_def truthy_def)

lemma think_step_reachable:
  assumes "reachable (loadSession st session)"
    and "session_of a e = Inr session"
    and "append_thought (loadSession st session) (new_thought a e)
           (arg_relates_to a) (arg_relationship_type a) = Inr saved"
    and "\<not> NAME_MAX < length (session_file session)"
  shows "reachable saved"
    and "snd (think st a e) = st(session_file session \<mapsto> Json saved)"
    and "loadSession (st(session_file session \<mapsto> Json saved)) session = saved"
proof -
  from think_succeeds [OF assms(2,3,4)] obtain response
    where t: "think st a e = (Inr response, st(session_file session \<mapsto> Json saved))" by blast
  show l: "loadSession (st(session_file session \<mapsto> Json saved)) session = saved"
    by (rule load_written [OF assms(4)])
  from reachable.step [OF assms(1,2) t] show "reachable saved"
    by (simp only: l)
  from t show "snd (think st a e) = st(session_file session \<mapsto> Json saved)" by simp
qed

lemma first_append:
  "append_thought (loadSession Map.empty ''a:b:c'') (new_thought unlinked_args example_env)
     (arg_relates_to unlinked_args) (arg_relationship_type unlinked_args)
     = Inr [new_thought unlinked_args example_env]"
  by (simp add: append_thought_def example_links load_none)

lemma first_step:
  "reachable [new_thought unlinked_args example_env]"
  "snd (think Map.empty unlinked_args example_env)
     = [session_file ''a:b:c'' \<mapsto> Json [new_thought unlinked_args example_env]]"
  "loadSession [session_file ''a:b:c'' \<mapsto> Json [new_thought unlinked_args example_env]] ''a:b:c''
     = [new_thought unlinked_args example_env]"
proof -
  have r0: "reachable (loadSession Map.empty ''a:b:c'')"
    by (simp add: load_none reachable.start)
  note s = think_step_reachable [OF r0 example_session_of(1) first_append short_abc]
  show "reachable [new_thought unlinked_args example_env]" by (rule s(1))
  show "snd (think Map.empty unlinked_args example_env)
     = [session_file ''a:b:c'' \<mapsto> Json [new_thought unlinked_args example_env]]" by (rule s(2))
  show "loadSession [session_file ''a:b:c'' \<mapsto> Json [new_thought unlinked_args example_env]] ''a:b:c''
     = [new_thought unlinked_args example_env]" by (rule s(3))
qed

lemma second_append:
  "append_thought [new_thought unlinked_args example_env] (new_thought linked_args later_env)
      (arg_relates_to linked_args) (arg_relationship_type linked_args)
      = Inr [(new_thought unlinked_args example_env)
          \<lparr>relationships_in := [\<lparr>thought_id = ''thought_6_abcde'', rel_type = ''builds_on''\<rparr>]\<rparr>,
        (new_thought linked_args later_env)
          \<lparr>relates_to := Some ''thought_5_abcde'', relationship_type := Some ''builds_on'',
           relationships_out := [\<lparr>thought_id = ''thought_5_abcde'', rel_type = ''builds_on''\<rparr>]\<rparr>]"
  by (simp add: append_thought_def example_links example_new_thoughts)

lemma two_step_session:
  "reachable (loadSession two_step_store ''a:b:c'')"
  "loadSession two_step_store ''a:b:c''
     = [(new_thought unlinked_args example_env)
          \<lparr>relationships_in := [\<lparr>thought_id = ''thought_6_abcde'', rel_type = ''builds_on''\<rparr>]\<rparr>,
        (new_thought linked_args later_env)
          \<lparr>relates_to := Some ''thought_5_abcde'', relationship_type := Some ''builds_on'',
           relationships_out := [\<lparr>thought_id = ''thought_5_abcde'', rel_type = ''builds_on''\<rparr>]\<rparr>]"
proof -
  let ?n1 = "new_thought unlinked_args example_env"
  let ?st1 = "[session_file ''a:b:c'' \<mapsto> Json [?n1]]"
  let ?saved = "[?n1\<lparr>relationships_in := [\<lparr>thought_id = ''thought_6_abcde'', rel_type = ''builds_on''\<rparr>]\<rparr>,
        (new_thought linked_args later_env)
          \<lparr>relates_to := Some ''thought_5_abcde'', relationship_type := Some ''builds_on'',
           relationships_out := [\<lparr>thought_id = ''thought_5_abcde'', rel_type = ''builds_on''\<rparr>]\<rparr>]"
  from first_step(1) have r1: "reachable (loadSession ?st1 ''a:b:c'')"
    by (simp only: first_step(3))
  have a2: "append_thought (loadSession ?st1 ''a:b:c'') (new_thought linked_args later_env)
      (arg_relates_to linked_args) (arg_relationship_type linked_args) = Inr ?saved"
    by (simp only: first_step(3) second_append)
  note s2 = think_step_reachable [OF r1 example_session_of(2) a2 short_abc]
  have st: "two_step_store = ?st1(session_file ''a:b:c'' \<mapsto> Json ?saved)"
    by (simp only: two_step_store_def first_step(2) s2(2))
  show "loadSession two_step_store ''a:b:c'' = ?saved"
    by (simp only: st s2(3))
  with s2(1) show "reachable (loadSession two_step_store ''a:b:c'')" by simp
qed

theorem relationships_consistent_witness:
  "reachable (loadSession two_step_store ''a:b:c'') \<and>
   distinct (map id_t (loadSession two_step_store ''a:b:c'')) \<and>
   map id_t (loadSession two_step_store ''a:b:c'') = [''thought_5_abcde'', ''thought_6_abcde''] \<and>
   \<lparr>thought_id = ''thought_5_abcde'', rel_type = ''builds_on''\<rparr>
     \<in> set (relationships_out (last (loadSession two_step_store ''a:b:c''))) \<and>
   \<lparr>thought_id = ''thought_6_abcde'', rel_type = ''builds_on''\<rparr>
     \<in> set (relationships_in (hd (loadSession two_step_store ''a:b:c'')))"
proof -
  let ?ths = "loadSession two_step_store ''a:b:c''"
  note r2 = two_step_session(1)
  have ids: "map id_t ?ths = [''thought_5_abcde'', ''thought_6_abcde'']"
    by (simp add: two_step_session(2) example_new_thoughts)
  have dist: "distinct (map id_t ?ths)"
    by (simp only: ids) simp
  have out: "\<lparr>thought_id = ''thought_5_abcde'', rel_type = ''builds_on''\<rparr>
     \<in> set (relationships_out (last ?ths))"
    by (simp add: two_step_session(2))
  have A: "last ?ths \<in> set ?ths" and B: "hd ?ths \<in> set ?ths"
    by (simp_all add: two_step_session(2))
  have idA: "id_t (last ?ths) = ''thought_6_abcde''" and idB: "id_t (hd ?ths) = ''thought_5_abcde''"
    by (simp_all add: two_step_session(2) example_new_thoughts)
  from relationships_consistent [OF r2 dist A B, of "''builds_on''"] out
  have "\<lparr>thought_id = ''thought_6_abcde'', rel_type = ''builds_on''\<rparr>
     \<in> set (relationships_in (hd ?ths))"
    by (simp only: idA idB)
  with r2 dist ids out show ?thesis by (intro conjI)
qed

lemma repeated_id_session:
  "reachable (loadSession repeated_id_store ''a:b:c'')"
  "loadSession repeated_id_store ''a:b:c''
     = [new_thought unlinked_args example_env,
        (new_thought second_args other_env)
          \<lparr>relationships_in := [\<lparr>thought_id = ''thought_5_abcde'', rel_type = ''supports''\<rparr>]\<rparr>,
        (new_thought repeated_args example_env)
          \<lparr>relates_to := Some ''thought_5_fghij'', relationship_type := Some ''supports'',
           relationships_out := [\<lparr>thought_id = ''thought_5_fghij'', rel_type = ''supports''\<rparr>]\<rparr>]"
proof -
  let ?n1 = "new_thought unlinked_args example_env"
  let ?n2 = "new_thought second_args other_env"
  let ?st1 = "[session_file ''a:b:c'' \<mapsto> Json [?n1]]"
  let ?st2 = "?st1(session_file ''a:b:c'' \<mapsto> Json [?n1, ?n2])"
  let ?saved = "[?n1,
        ?n2\<lparr>relationships_in := [\<lparr>thought_id = ''thought_5_abcde'', rel_type = ''supports''\<rparr>]\<rparr>,
        (new_thought repeated_args example_env)
          \<lparr>relates_to := Some ''thought_5_fghij'', relationship_type := Some ''supports'',
           relationships_out := [\<lparr>thought_id = ''thought_5_fghij'', rel_type = ''supports''\<rparr>]\<rparr>]"
  from first_step(1) have r1: "reachable (loadSession ?st1 ''a:b:c'')"
    by (simp only: first_step(3))
  have "append_thought [?n1] ?n2 (arg_relates_to second_args) (arg_relationship_type second_args)
      = Inr [?n1, ?n2]"
    by (simp add: append_thought_def example_links)
  then have a2: "append_thought (loadSession ?st1 ''a:b:c'') ?n2
      (arg_relates_to second_args) (arg_relationship_type second_args) = Inr [?n1, ?n2]"
    by (simp only: first_step(3))
  note s2 = think_step_reachable [OF r1 example_session_of(3) a2 short_abc]
  from s2(1) have r2: "reachable (loadSession ?st2 ''a:b:c'')"
    by (simp only: s2(3))
  have "append_thought [?n1, ?n2] (new_thought repeated_args example_env)
      (arg_relates_to repeated_args) (arg_relationship_type repeated_args) = Inr ?saved"
    by (simp add: append_thought_def example_links example_new_thoughts)
  then have a3: "append_thought (loadSession ?st2 ''a:b:c'') (new_thought repeated_args example_env)
      (arg_relates_to repeated_args) (arg_relationship_type repeated_args) = Inr ?saved"
    by (simp only: s2(3))
  note s3 = think_step_reachable [OF r2 example_session_of(4) a3 short_abc]
  have st: "repeated_id_store = ?st2(session_file ''a:b:c'' \<mapsto> Json ?saved)"
    by (simp only: repeated_id_store_def first_step(2) s2(2) s3(2))
  show "loadSession repeated_id_store ''a:b:c'' = ?saved"
    by (simp only: st s3(3))
  with s3(1) show "reachable (loadSession repeated_id_store ''a:b:c'')" by simp
qed

text \<open>
  C5 (as stated) fails when a call generates an id that the session holds already. After
  three successful calls, the third drawing the id of the first and relating to the
  second with \<open>supports\<close>, the \<open>relationships_in\<close> of the second thought hold the entry
  for the id of the first thought, whose \<open>relationships_out\<close> are empty.
\<close>

theorem relationships_consistent_counterexample:
  "reachable (loadSession repeated_id_store ''a:b:c'') \<and>
   map id_t (loadSession repeated_id_store ''a:b:c'')
     = [''thought_5_abcde'', ''thought_5_fghij'', ''thought_5_abcde''] \<and>
   \<lparr>thought_id = ''thought_5_abcde'', rel_type = ''supports''\<rparr>
     \<in> set (relationships_in (loadSession repeated_id_store ''a:b:c'' ! 1)) \<and>
   \<lparr>thought_id = ''thought_5_fghij'', rel_type = ''supports''\<rparr>
     \<notin> set (relationships_out (loadSession repeated_id_store ''a:b:c'' ! 0))"
  using repeated_id_session(1)
  by (simp add: repeated_id_session(2) example_new_thoughts)

end
